theory Spec2Isabelle
  imports Main "HOL-Library.Word" "HOL-Library.AList"
begin

section \<open>The confirmation page of the OCR work-report application\<close>

text \<open>
  This theory embeds the logic of \<^verbatim>\<open>src/pages/ConfirmationPage.tsx\<close>: the time
  formatter, the duplicate detector, the master-data reconciliation effect, the handlers
  that add worker records, and the save orchestration (\<^verbatim>\<open>handleSave\<close> with its inner
  \<^verbatim>\<open>performSave\<close>).

  The source names its data in Japanese. Identifiers here are romanised:
  \<^item> \<open>header\<close> is the property written U+30D8 U+30C3 U+30C0 U+30FC (header),
    \<open>sagyoubi\<close> is U+4F5C U+696D U+65E5 (work date),
    \<open>shouhinmei\<close> is U+5546 U+54C1 U+540D (product name);
  \<^item> \<open>housou_sagyou_kiroku\<close> is U+5305 U+88C5 U+4F5C U+696D U+8A18 U+9332 (packaging work
    records), \<open>kikai_sousa_kiroku\<close> is U+6A5F U+68B0 U+64CD U+4F5C U+8A18 U+9332 (machine
    operation records);
  \<^item> \<open>shimei\<close> is U+6C0F U+540D (name), \<open>kaishi_jikoku\<close> is U+958B U+59CB U+6642 U+523B
    (start time), \<open>shuuryou_jikoku\<close> is U+7D42 U+4E86 U+6642 U+523B (end time),
    \<open>jikoku_list\<close> is U+6642 U+523B U+30EA U+30B9 U+30C8 (time list),
    \<open>kyuukei\<close> is U+4F11 U+61A9 (breaks) with \<open>hiruyasumi\<close> U+663C U+4F11 U+307F (lunch
    break) and \<open>nakayasumi\<close> U+4E2D U+4F11 U+307F (mid break),
    \<open>seisansuu\<close> is U+751F U+7523 U+6570 (production count).
\<close>

subsection \<open>JavaScript strings\<close>

text \<open>
  A JavaScript string is a sequence of UTF-16 code units; \<^verbatim>\<open>length\<close>, indexing,
  \<^verbatim>\<open>slice\<close>, \<^verbatim>\<open>trim\<close> and a regular expression without the \<^verbatim>\<open>u\<close> flag all work
  on code units. \<open>js\<close> writes an ASCII literal.
\<close>

type_synonym jschar = "16 word"
type_synonym jsstring = "jschar list"

definition js :: "string \<Rightarrow> jsstring" where
  "js s = map of_char s"

text \<open>The class \<^verbatim>\<open>\d\<close> of a regular expression: the ten ASCII digits.\<close>

definition is_digit :: "jschar \<Rightarrow> bool" where
  "is_digit c = (0x30 \<le> c \<and> c \<le> 0x39)"

text \<open>
  The code units that \<^verbatim>\<open>String.prototype.trim\<close> strips: ECMAScript's WhiteSpace
  (TAB, VT, FF, SP, NBSP, ZWNBSP and the space separators, among them the ideographic
  space U+3000) and LineTerminator (LF, CR, LS, PS).
\<close>

definition is_js_whitespace :: "jschar \<Rightarrow> bool" where
  "is_js_whitespace c =
     (c \<in> {0x0009, 0x000A, 0x000B, 0x000C, 0x000D, 0x0020, 0x00A0, 0x1680,
            0x2028, 0x2029, 0x202F, 0x205F, 0x3000, 0xFEFF}
      \<or> (0x2000 \<le> c \<and> c \<le> 0x200A))"

definition js_trim :: "jsstring \<Rightarrow> jsstring" where
  "js_trim s = rev (dropWhile is_js_whitespace (rev (dropWhile is_js_whitespace s)))"

text \<open>Truthiness of a string (only the empty string is falsy) and of an optional one.\<close>

definition js_truthy :: "jsstring \<Rightarrow> bool" where
  "js_truthy s = (s \<noteq> [])"

definition js_truthy_opt :: "jsstring option \<Rightarrow> bool" where
  "js_truthy_opt v = (case v of None \<Rightarrow> False | Some s \<Rightarrow> js_truthy s)"

text \<open>\<^verbatim>\<open>s[i]\<close> is \<^verbatim>\<open>undefined\<close> out of range; concatenation prints it as such.\<close>

definition js_index :: "jsstring \<Rightarrow> nat \<Rightarrow> jsstring option" where
  "js_index s i = (if i < length s then Some [s ! i] else None)"

definition js_string_of :: "jsstring option \<Rightarrow> jsstring" where
  "js_string_of v = (case v of None \<Rightarrow> js ''undefined'' | Some s \<Rightarrow> s)"

text \<open>\<^verbatim>\<open>s.slice(a, b)\<close> and \<^verbatim>\<open>s.slice(a)\<close> for non-negative arguments.\<close>

definition js_slice :: "jsstring \<Rightarrow> nat \<Rightarrow> nat \<Rightarrow> jsstring" where
  "js_slice s a b = take (b - a) (drop a s)"

definition js_slice_from :: "jsstring \<Rightarrow> nat \<Rightarrow> jsstring" where
  "js_slice_from s a = drop a s"

text \<open>\<^verbatim>\<open>String.prototype.includes\<close>: the argument occurs as a substring.\<close>

fun js_str_includes :: "jsstring \<Rightarrow> jsstring \<Rightarrow> bool" where
  "js_str_includes [] sub = (sub = [])"
| "js_str_includes (c # s) sub =
     (take (length sub) (c # s) = sub \<or> js_str_includes s sub)"

text \<open>
  \<^verbatim>\<open>Array.prototype.splice(start, 0, item)\<close> on a copy of the array: a negative
  start counts from the end, and the start is clamped to the array.
\<close>

definition js_splice_insert :: "int \<Rightarrow> 'a \<Rightarrow> 'a list \<Rightarrow> 'a list" where
  "js_splice_insert start item xs =
     (let len = int (length xs);
          actualStart = (if start < 0 then max (len + start) 0 else min start len)
      in take (nat actualStart) xs @ [item] @ drop (nat actualStart) xs)"

subsection \<open>Time input formatting\<close>

text \<open>\<^verbatim>\<open>input.replace(/[^\d]/g, '')\<close> keeps exactly the digits, in order.\<close>

definition digits_only :: "jsstring \<Rightarrow> jsstring" where
  "digits_only input = filter is_digit input"

definition formatTimeInput :: "jsstring \<Rightarrow> jsstring" where
  "formatTimeInput input =
     (let numbersOnly = digits_only input in
      if length numbersOnly = 0 then []
      else if length numbersOnly \<le> 2 then numbersOnly @ js '':00''
      else if length numbersOnly = 3 then
        js_string_of (js_index numbersOnly 0) @ js '':'' @ js_slice_from numbersOnly 1
      else if length numbersOnly = 4 then
        js_slice numbersOnly 0 2 @ js '':'' @ js_slice_from numbersOnly 2
      else js_slice numbersOnly 0 2 @ js '':'' @ js_slice numbersOnly 2 4)"

subsection \<open>Duplicate detection\<close>

text \<open>
  \<^verbatim>\<open>findDuplicates\<close> counts names in a \<^verbatim>\<open>Map\<close>, which keeps its keys in
  insertion order: \<^verbatim>\<open>set\<close> on a present key replaces the value in place and on a new
  key appends, which is \<^const>\<open>AList.update\<close> on an association list. A name is counted
  when it is truthy and its trimmed form is truthy. \<^verbatim>\<open>get(name) || 0\<close> reads a
  missing (or zero) count as 0.
\<close>

definition map_get_or_zero :: "(jsstring \<times> nat) list \<Rightarrow> jsstring \<Rightarrow> nat" where
  "map_get_or_zero nameCount name =
     (case map_of nameCount name of None \<Rightarrow> 0 | Some c \<Rightarrow> if c = 0 then 0 else c)"

definition is_counted :: "jsstring \<Rightarrow> bool" where
  "is_counted name = (js_truthy name \<and> js_truthy (js_trim name))"

definition count_name :: "jsstring \<Rightarrow> (jsstring \<times> nat) list \<Rightarrow> (jsstring \<times> nat) list" where
  "count_name name nameCount =
     (if is_counted name then
        (let count = map_get_or_zero nameCount name
         in AList.update name (count + 1) nameCount)
      else nameCount)"

definition findDuplicates :: "jsstring list \<Rightarrow> jsstring list" where
  "findDuplicates names =
     map fst (filter (\<lambda>(_, count). count > 1) (fold count_name names []))"

subsection \<open>The report\<close>

text \<open>
  Modelled from the spec: the type \<^verbatim>\<open>ConfirmationStatus\<close> is declared in
  \<^verbatim>\<open>@/types\<close>, which is not among the sources; the spec gives it as the enumeration
  of pending, editing and approved, the three literals the page compares with and assigns.
  A status property may be absent from an object, hence the \<open>option\<close> in the records.
\<close>

datatype ConfirmationStatus = Pending | Editing | Approved

text \<open>
  A JavaScript number that the page only carries along (the OCR confidence): a finite
  double as mantissa and binary exponent, or one of the special values.
\<close>

datatype js_number = Finite int int | NaN | PosInfinity | NegInfinity

record TimeSlot =
  slot_kaishi_jikoku :: "jsstring option"
  slot_shuuryou_jikoku :: "jsstring option"

record Kyuukei =
  hiruyasumi :: bool
  nakayasumi :: bool

text \<open>
  \<^verbatim>\<open>PackagingRecord\<close> and \<^verbatim>\<open>MachineOperationRecord\<close> (both from
  \<^verbatim>\<open>@/types\<close>) carry the same properties wherever the page reads or builds them.
  An optional property is \<open>None\<close> when the object does not have it.
\<close>

record WorkerRecord =
  shimei :: jsstring
  kaishi_jikoku :: "jsstring option"
  shuuryou_jikoku :: "jsstring option"
  jikoku_list :: "TimeSlot list option"
  kyuukei :: Kyuukei
  seisansuu :: jsstring
  nameError :: "jsstring option"
  nameConfirmationStatus :: "ConfirmationStatus option"
  originalName :: "jsstring option"
  confidence :: "js_number option"

type_synonym PackagingRecord = WorkerRecord
type_synonym MachineOperationRecord = WorkerRecord

record Header =
  sagyoubi :: "jsstring option"
  shouhinmei :: jsstring
  productError :: "jsstring option"
  productConfirmationStatus :: "ConfirmationStatus option"
  originalProductName :: "jsstring option"
  productConfidence :: "js_number option"

record OcrResult =
  header :: Header
  housou_sagyou_kiroku :: "PackagingRecord list"
  kikai_sousa_kiroku :: "MachineOperationRecord list"

record MasterData =
  products :: "jsstring list"
  employees :: "jsstring list"

record DuplicateInfo =
  packaging :: "jsstring list"
  machine :: "jsstring list"

record DuplicateCheck = DuplicateInfo +
  hasDuplicates :: bool

definition checkForDuplicates :: "OcrResult \<Rightarrow> DuplicateCheck" where
  "checkForDuplicates data =
     (let packagingNames = map shimei (housou_sagyou_kiroku data);
          machineNames = map shimei (kikai_sousa_kiroku data);
          duplicatePackaging = findDuplicates packagingNames;
          duplicateMachine = findDuplicates machineNames
      in \<lparr> packaging = duplicatePackaging,
           machine = duplicateMachine,
           hasDuplicates = (length duplicatePackaging > 0 \<or> length duplicateMachine > 0) \<rparr>)"

subsection \<open>Effects and page state\<close>

text \<open>
  A handler of the page runs on the values of the current render (its closure) and
  issues state updates, dialogs, logs and calls in program order. It is modelled as the
  list of these actions; \<open>run\<close> applies them to the page state. The messages are the
  literal texts of the source, one constructor each; \<open>ErrorText\<close> is the message of a
  caught \<^verbatim>\<open>Error\<close> shown as it is, and \<open>MissingSheet\<close> carries the accounting
  period (\<open>None\<close> when the date is invalid and the numbers print as NaN) and the failed
  workers. \<^verbatim>\<open>console.log\<close> output is left out; \<^verbatim>\<open>console.error\<close> is an action.
\<close>

datatype js_thrown = JsError jsstring | JsOtherValue

datatype message =
    UnconfirmedItems
  | EditingItems
  | SaveFailed
  | AuthFailed
  | NetworkFailed
  | ErrorText jsstring
  | MissingSheet "(int \<times> int) option" "jsstring list"
  | DataSaved

datatype log_entry = SaveErrorLog js_thrown | ExistingDataCheckErrorLog js_thrown

datatype action =
    SetIsSaving bool
  | SetEditedData OcrResult
  | SetHasChanges bool
  | SetFailedWorkers "jsstring list"
  | SetMissingSheetMessage message
  | SetMissingSheetDialogOpen bool
  | SetDuplicateInfo "DuplicateInfo option"
  | SetDuplicateDialogOpen bool
  | SetOverwriteCallback "OcrResult option"
  | SetConfirmDialogOpen bool
  | SetSuccess message
  | SetCurrentStep nat
  | Navigate string
  | Alert message
  | ConsoleError log_entry
  | CallCheckExistingData OcrResult
  | CallSaveToPersonalSheets OcrResult

text \<open>
  The state of the page: the \<^verbatim>\<open>useState\<close> cells that the modelled handlers write, the
  two cells of the application store, and the route. \<open>overwriteCallback\<close> holds the stored
  \<^verbatim>\<open>performSave\<close> closure, that is the report it captured.
\<close>

record page_state =
  editedData :: "OcrResult option"
  hasChanges :: bool
  isSaving :: bool
  confirmDialogOpen :: bool
  overwriteCallback :: "OcrResult option"
  failedWorkers :: "jsstring list"
  missingSheetDialogOpen :: bool
  missingSheetMessage :: "message option"
  duplicateDialogOpen :: bool
  duplicateInfo :: "DuplicateInfo option"
  store_success :: "message option"
  store_currentStep :: nat
  route :: string

fun apply_action :: "action \<Rightarrow> page_state \<Rightarrow> page_state" where
  "apply_action (SetIsSaving b) s = s\<lparr>isSaving := b\<rparr>"
| "apply_action (SetEditedData d) s = s\<lparr>editedData := Some d\<rparr>"
| "apply_action (SetHasChanges b) s = s\<lparr>hasChanges := b\<rparr>"
| "apply_action (SetFailedWorkers ws) s = s\<lparr>failedWorkers := ws\<rparr>"
| "apply_action (SetMissingSheetMessage m) s = s\<lparr>missingSheetMessage := Some m\<rparr>"
| "apply_action (SetMissingSheetDialogOpen b) s = s\<lparr>missingSheetDialogOpen := b\<rparr>"
| "apply_action (SetDuplicateInfo i) s = s\<lparr>duplicateInfo := i\<rparr>"
| "apply_action (SetDuplicateDialogOpen b) s = s\<lparr>duplicateDialogOpen := b\<rparr>"
| "apply_action (SetOverwriteCallback c) s = s\<lparr>overwriteCallback := c\<rparr>"
| "apply_action (SetConfirmDialogOpen b) s = s\<lparr>confirmDialogOpen := b\<rparr>"
| "apply_action (SetSuccess m) s = s\<lparr>store_success := Some m\<rparr>"
| "apply_action (SetCurrentStep n) s = s\<lparr>store_currentStep := n\<rparr>"
| "apply_action (Navigate r) s = s\<lparr>route := r\<rparr>"
| "apply_action (Alert m) s = s"
| "apply_action (ConsoleError l) s = s"
| "apply_action (CallCheckExistingData d) s = s"
| "apply_action (CallSaveToPersonalSheets d) s = s"

definition run :: "action list \<Rightarrow> page_state \<Rightarrow> page_state" where
  "run acts s = fold apply_action acts s"

text \<open>What the user is shown, and what leaves the page.\<close>

fun is_message :: "action \<Rightarrow> bool" where
  "is_message (Alert m) = True"
| "is_message (SetDuplicateDialogOpen b) = b"
| "is_message (SetMissingSheetDialogOpen b) = b"
| "is_message (SetConfirmDialogOpen b) = b"
| "is_message a = False"

fun is_alert :: "action \<Rightarrow> bool" where
  "is_alert (Alert m) = True"
| "is_alert a = False"

fun is_external_call :: "action \<Rightarrow> bool" where
  "is_external_call (CallCheckExistingData d) = True"
| "is_external_call (CallSaveToPersonalSheets d) = True"
| "is_external_call a = False"

fun is_navigation :: "action \<Rightarrow> bool" where
  "is_navigation (Navigate r) = True"
| "is_navigation a = False"

text \<open>
  A handler run is blocked when it shows a message and makes no external call at all.
\<close>

definition blocked :: "action list \<Rightarrow> bool" where
  "blocked acts = (list_ex is_message acts \<and> \<not> list_ex is_external_call acts)"

text \<open>
  The saving flag over a run: in every intermediate state, that is after each action
  but the last, \<^verbatim>\<open>isSaving\<close> is set.
\<close>

fun saving_throughout :: "page_state \<Rightarrow> action list \<Rightarrow> bool" where
  "saving_throughout s [] = True"
| "saving_throughout s [a] = True"
| "saving_throughout s (a # b # acts) =
     (isSaving (apply_action a s) \<and> saving_throughout (apply_action a s) (b # acts))"

subsection \<open>The collaborators outside the page\<close>

text \<open>
  \<^verbatim>\<open>GoogleSheetsService\<close> and the \<^verbatim>\<open>Date\<close> constructor are not part of the page.
  Their outcomes are parameters: a call either throws (\<open>Inl\<close>) or returns. The existence
  probe returns an object from worker names to booleans, here its entries in enumeration
  order; the commit returns a possibly missing result with an optional
  \<^verbatim>\<open>failedWorkers\<close> array. A \<^verbatim>\<open>Date\<close> is invalid or answers \<^verbatim>\<open>getFullYear\<close>,
  \<^verbatim>\<open>getMonth\<close> (from 0) and \<^verbatim>\<open>getDate\<close>.
\<close>

record SaveResult =
  result_failedWorkers :: "jsstring list option"

datatype js_date = InvalidDate | ValidDate int int int

record env =
  checkExistingData :: "OcrResult \<Rightarrow> js_thrown + (jsstring \<times> bool) list"
  saveToPersonalSheets :: "OcrResult \<Rightarrow> js_thrown + SaveResult option"
  newDate :: "jsstring option \<Rightarrow> js_date"

subsection \<open>The accounting period\<close>

text \<open>
  The computation inside \<^verbatim>\<open>performSave\<close>, on the year, the month (from 1, that is
  \<^verbatim>\<open>getMonth() + 1\<close>) and the day of the month.
\<close>

definition accounting_period :: "int \<Rightarrow> int \<Rightarrow> int \<Rightarrow> int \<times> int" where
  "accounting_period year month day =
     (let periodYear = year; periodMonth = month in
      if day \<le> 20 then
        (if month = 1 then (year - 1, 12) else (periodYear, month - 1))
      else (periodYear, periodMonth))"

text \<open>On an invalid date every getter is NaN, no comparison holds, and the period is NaN.\<close>

definition period_of_date :: "js_date \<Rightarrow> (int \<times> int) option" where
  "period_of_date workDate =
     (case workDate of
        InvalidDate \<Rightarrow> None
      | ValidDate fullYear month0 date \<Rightarrow> Some (accounting_period fullYear (month0 + 1) date))"

subsection \<open>Saving\<close>

text \<open>
  The three substrings that classify a caught error, as code units: the text for a
  missing personal sheet, for authentication and for network.
\<close>

definition kojin_sheet_ga_arimasen :: jsstring where
  "kojin_sheet_ga_arimasen =
     [0x500B, 0x4EBA, 0x30B7, 0x30FC, 0x30C8, 0x304C, 0x3042, 0x308A, 0x307E, 0x305B, 0x3093]"

definition ninshou :: jsstring where
  "ninshou = [0x8A8D, 0x8A3C]"

definition network_katakana :: jsstring where
  "network_katakana = [0x30CD, 0x30C3, 0x30C8, 0x30EF, 0x30FC, 0x30AF]"

definition save_error_message :: "js_thrown \<Rightarrow> message" where
  "save_error_message error =
     (case error of
        JsError msg \<Rightarrow>
          if js_str_includes msg kojin_sheet_ga_arimasen then ErrorText msg
          else if js_str_includes msg ninshou then AuthFailed
          else if js_str_includes msg network_katakana then NetworkFailed
          else ErrorText msg
      | JsOtherValue \<Rightarrow> SaveFailed)"

text \<open>
  \<^verbatim>\<open>result && result.failedWorkers && result.failedWorkers.length > 0\<close>, giving the
  array when the test holds.
\<close>

definition reported_failures :: "SaveResult option \<Rightarrow> jsstring list option" where
  "reported_failures result =
     (case result of
        None \<Rightarrow> None
      | Some r \<Rightarrow>
          (case result_failedWorkers r of
             None \<Rightarrow> None
           | Some ws \<Rightarrow> if length ws > 0 then Some ws else None))"

text \<open>
  \<^verbatim>\<open>performSave\<close> runs synchronously up to the call of the ledger and continues
  when that call settles; the \<^verbatim>\<open>finally\<close> clause ends every path.
\<close>

definition performSave_begin :: "OcrResult \<Rightarrow> action list" where
  "performSave_begin edited = [SetIsSaving True, CallSaveToPersonalSheets edited]"

definition performSave_settle :: "env \<Rightarrow> OcrResult \<Rightarrow> action list" where
  "performSave_settle e edited =
     (case saveToPersonalSheets e edited of
        Inr result \<Rightarrow>
          (case reported_failures result of
             Some ws \<Rightarrow>
               (let failedPackaging =
                      filter (\<lambda>record. shimei record \<in> set ws) (housou_sagyou_kiroku edited);
                    failedMachine =
                      filter (\<lambda>record. shimei record \<in> set ws) (kikai_sousa_kiroku edited);
                    workDate = newDate e (sagyoubi (header edited))
                in [SetFailedWorkers ws,
                    SetEditedData (edited\<lparr>housou_sagyou_kiroku := failedPackaging,
                                              kikai_sousa_kiroku := failedMachine\<rparr>),
                    SetMissingSheetMessage (MissingSheet (period_of_date workDate) ws),
                    SetMissingSheetDialogOpen True])
           | None \<Rightarrow> [SetSuccess DataSaved, SetCurrentStep 4, Navigate ''/success''])
      | Inl error \<Rightarrow> [ConsoleError (SaveErrorLog error), Alert (save_error_message error)])
     @ [SetIsSaving False]"

definition performSave :: "env \<Rightarrow> OcrResult \<Rightarrow> action list" where
  "performSave e edited = performSave_begin edited @ performSave_settle e edited"

text \<open>The two validation tests of \<^verbatim>\<open>handleSave\<close>.\<close>

definition hasPendingProduct :: "OcrResult \<Rightarrow> bool" where
  "hasPendingProduct edited =
     (productConfirmationStatus (header edited) = Some Pending)"

definition hasPendingNames :: "OcrResult \<Rightarrow> bool" where
  "hasPendingNames edited =
     list_ex (\<lambda>isPending. isPending)
       (map (\<lambda>r. nameConfirmationStatus r = Some Pending) (housou_sagyou_kiroku edited)
        @ map (\<lambda>r. nameConfirmationStatus r = Some Pending) (kikai_sousa_kiroku edited))"

definition hasEditingItems :: "OcrResult \<Rightarrow> bool" where
  "hasEditingItems edited =
     list_ex (\<lambda>isEditing. isEditing)
       ([productConfirmationStatus (header edited) = Some Editing]
        @ map (\<lambda>r. nameConfirmationStatus r = Some Editing) (housou_sagyou_kiroku edited)
        @ map (\<lambda>r. nameConfirmationStatus r = Some Editing) (kikai_sousa_kiroku edited))"

text \<open>\<^verbatim>\<open>Object.values(existingDataMap).some(hasData => hasData)\<close>.\<close>

definition hasAnyExistingData :: "(jsstring \<times> bool) list \<Rightarrow> bool" where
  "hasAnyExistingData existingDataMap =
     list_ex (\<lambda>hasData. hasData) (map snd existingDataMap)"

text \<open>The confirmation gate: the conditions under which one of the two alerts is shown.\<close>

definition confirmation_gate_blocks :: "OcrResult \<Rightarrow> bool" where
  "confirmation_gate_blocks edited =
     (hasPendingProduct edited \<or> hasPendingNames edited \<or> hasEditingItems edited)"

definition handleSave :: "env \<Rightarrow> OcrResult option \<Rightarrow> action list" where
  "handleSave e current =
     (case current of
        None \<Rightarrow> []
      | Some edited \<Rightarrow>
          if hasPendingProduct edited \<or> hasPendingNames edited then
            [Alert UnconfirmedItems]
          else if hasEditingItems edited then
            [Alert EditingItems]
          else
            (let duplicateCheck = checkForDuplicates edited in
             if hasDuplicates duplicateCheck then
               [SetDuplicateInfo (Some \<lparr> packaging = packaging duplicateCheck,
                                         machine = machine duplicateCheck \<rparr>),
                SetDuplicateDialogOpen True]
             else
               [SetIsSaving True, CallCheckExistingData edited] @
               (case checkExistingData e edited of
                  Inr existingDataMap \<Rightarrow>
                    if hasAnyExistingData existingDataMap then
                      [SetOverwriteCallback (Some edited),
                       SetConfirmDialogOpen True,
                       SetIsSaving False]
                    else performSave e edited
                | Inl error \<Rightarrow>
                    [ConsoleError (ExistingDataCheckErrorLog error)] @ performSave e edited)))"

text \<open>
  The two buttons of the overwrite dialog. Confirming starts the stored callback, closes
  the dialog while the ledger call is pending, and the callback then continues.
\<close>

definition confirmOverwrite :: "env \<Rightarrow> OcrResult option \<Rightarrow> action list" where
  "confirmOverwrite e callback =
     (case callback of
        Some captured \<Rightarrow>
          performSave_begin captured @ [SetConfirmDialogOpen False] @ performSave_settle e captured
      | None \<Rightarrow> [SetConfirmDialogOpen False])"

definition handleCancelOverwrite :: "action list" where
  "handleCancelOverwrite = [SetConfirmDialogOpen False, SetOverwriteCallback None]"

subsection \<open>Master-data reconciliation\<close>

text \<open>
  The effect that runs when the report, the master data or its loading flag change. The
  callback of each \<^verbatim>\<open>map\<close> over the workers is \<open>clearNameError\<close>; \<open>nameErrorCleared\<close>
  is its test, which also raises the local flag \<^verbatim>\<open>hasChanges\<close>. The header object is
  shared between the old and the new report and is changed in place, and whenever it is
  changed the new report is stored.
\<close>

definition nameErrorCleared :: "MasterData \<Rightarrow> WorkerRecord \<Rightarrow> bool" where
  "nameErrorCleared masterData record =
     (js_truthy (shimei record) \<and> shimei record \<in> set (employees masterData)
      \<and> js_truthy_opt (nameError record))"

definition clearNameError :: "MasterData \<Rightarrow> WorkerRecord \<Rightarrow> WorkerRecord" where
  "clearNameError masterData record =
     (if nameErrorCleared masterData record then
        record\<lparr>nameError := None, nameConfirmationStatus := Some Approved\<rparr>
      else record)"

definition productErrorCleared :: "MasterData \<Rightarrow> Header \<Rightarrow> bool" where
  "productErrorCleared masterData h =
     (js_truthy (shouhinmei h) \<and> shouhinmei h \<in> set (products masterData)
      \<and> js_truthy_opt (productError h))"

definition clearProductError :: "MasterData \<Rightarrow> Header \<Rightarrow> Header" where
  "clearProductError masterData h =
     (if productErrorCleared masterData h then
        h\<lparr>productError := None, productConfirmationStatus := Some Approved\<rparr>
      else h)"

definition reconcileMasterData ::
  "OcrResult option \<Rightarrow> MasterData option \<Rightarrow> bool \<Rightarrow> action list" where
  "reconcileMasterData current master masterDataLoading =
     (case current of
        None \<Rightarrow> []
      | Some edited \<Rightarrow>
          (case master of
             None \<Rightarrow> []
           | Some masterData \<Rightarrow>
               if masterDataLoading then []
               else
                 (let changed =
                        (productErrorCleared masterData (header edited)
                         \<or> list_ex (nameErrorCleared masterData) (housou_sagyou_kiroku edited)
                         \<or> list_ex (nameErrorCleared masterData) (kikai_sousa_kiroku edited));
                      updatedData =
                        \<lparr> header = clearProductError masterData (header edited),
                          housou_sagyou_kiroku =
                            map (clearNameError masterData) (housou_sagyou_kiroku edited),
                          kikai_sousa_kiroku =
                            map (clearNameError masterData) (kikai_sousa_kiroku edited) \<rparr>
                  in if changed then [SetEditedData updatedData] else [])))"

subsection \<open>Adding worker records\<close>

definition newPackagingRecord :: PackagingRecord where
  "newPackagingRecord =
     \<lparr> shimei = [],
       kaishi_jikoku = Some (js ''8:00''),
       shuuryou_jikoku = Some (js ''17:00''),
       jikoku_list = Some [\<lparr> slot_kaishi_jikoku = Some (js ''8:00''),
                            slot_shuuryou_jikoku = Some (js ''17:00'') \<rparr>],
       kyuukei = \<lparr> hiruyasumi = True, nakayasumi = False \<rparr>,
       seisansuu = js ''0'',
       nameError = None,
       nameConfirmationStatus = None,
       originalName = None,
       confidence = None \<rparr>"

definition addPackagingRecord :: "OcrResult \<Rightarrow> action list" where
  "addPackagingRecord edited =
     [SetEditedData (edited\<lparr>housou_sagyou_kiroku :=
                       newPackagingRecord # housou_sagyou_kiroku edited\<rparr>),
      SetHasChanges True]"

definition addPackagingRecordAtPosition :: "OcrResult \<Rightarrow> int \<Rightarrow> action list" where
  "addPackagingRecordAtPosition edited position =
     [SetEditedData (edited\<lparr>housou_sagyou_kiroku :=
                       js_splice_insert position newPackagingRecord
                         (housou_sagyou_kiroku edited)\<rparr>),
      SetHasChanges True]"

text \<open>
  A new machine record copies the first machine record when there is one, with the name
  blanked and the status pending; otherwise it takes the default values.
\<close>

definition newMachineRecord :: "OcrResult \<Rightarrow> MachineOperationRecord" where
  "newMachineRecord edited =
     (case kikai_sousa_kiroku edited of
        firstRecord # _ \<Rightarrow>
          firstRecord\<lparr>shimei := [], nameConfirmationStatus := Some Pending\<rparr>
      | [] \<Rightarrow>
          \<lparr> shimei = [],
            kaishi_jikoku = Some (js ''8:00''),
            shuuryou_jikoku = Some (js ''17:00''),
            jikoku_list = Some [\<lparr> slot_kaishi_jikoku = Some (js ''8:00''),
                                 slot_shuuryou_jikoku = Some (js ''17:00'') \<rparr>],
            kyuukei = \<lparr> hiruyasumi = False, nakayasumi = False \<rparr>,
            seisansuu = js ''0'',
            nameError = None,
            nameConfirmationStatus = Some Pending,
            originalName = None,
            confidence = None \<rparr>)"

definition addMachineRecord :: "OcrResult \<Rightarrow> action list" where
  "addMachineRecord edited =
     [SetEditedData (edited\<lparr>kikai_sousa_kiroku :=
                       newMachineRecord edited # kikai_sousa_kiroku edited\<rparr>),
      SetHasChanges True]"

definition addMachineRecordAtPosition :: "OcrResult \<Rightarrow> int \<Rightarrow> action list" where
  "addMachineRecordAtPosition edited position =
     [SetEditedData (edited\<lparr>kikai_sousa_kiroku :=
                       js_splice_insert position (newMachineRecord edited)
                         (kikai_sousa_kiroku edited)\<rparr>),
      SetHasChanges True]"

subsection \<open>Confirming a machine worker's name\<close>

text \<open>
  \<^verbatim>\<open>updateMachineNameConfirmationStatus\<close> copies the machine list and replaces the
  record at the index by a copy with the given status. For an index beyond the list the
  source stores, in a longer array, an object that holds the status alone; such an object
  is not a worker record, and \<open>None\<close> stands for that case.
\<close>

definition updateMachineNameConfirmationStatus ::
  "OcrResult \<Rightarrow> nat \<Rightarrow> ConfirmationStatus \<Rightarrow> action list option" where
  "updateMachineNameConfirmationStatus edited index status =
     (if index < length (kikai_sousa_kiroku edited) then
        (let newRecords =
               (kikai_sousa_kiroku edited)
                 [index := (kikai_sousa_kiroku edited ! index)
                             \<lparr>nameConfirmationStatus := Some status\<rparr>]
         in Some [SetEditedData (edited\<lparr>kikai_sousa_kiroku := newRecords\<rparr>),
                  SetHasChanges True])
      else None)"

text \<open>The index at which \<^verbatim>\<open>splice(start, 0, item)\<close> puts the item.\<close>

definition js_splice_start :: "int \<Rightarrow> 'a list \<Rightarrow> nat" where
  "js_splice_start start xs =
     (let len = int (length xs)
      in nat (if start < 0 then max (len + start) 0 else min start len))"

subsection \<open>Example reports\<close>

text \<open>Concrete workers, headers and reports on which the properties below are run.\<close>

definition example_worker :: "jsstring \<Rightarrow> ConfirmationStatus option \<Rightarrow> WorkerRecord" where
  "example_worker name status =
     \<lparr> shimei = name,
       kaishi_jikoku = Some (js ''8:00''),
       shuuryou_jikoku = Some (js ''17:00''),
       jikoku_list = None,
       kyuukei = \<lparr> hiruyasumi = True, nakayasumi = False \<rparr>,
       seisansuu = js ''0'',
       nameError = None,
       nameConfirmationStatus = status,
       originalName = None,
       confidence = None \<rparr>"

definition example_header :: "ConfirmationStatus option \<Rightarrow> Header" where
  "example_header status =
     \<lparr> sagyoubi = Some (js ''2024/02/20''),
       shouhinmei = js ''P'',
       productError = None,
       productConfirmationStatus = status,
       originalProductName = None,
       productConfidence = None \<rparr>"

definition example_duplicated :: OcrResult where
  "example_duplicated =
     \<lparr> header = example_header (Some Approved),
       housou_sagyou_kiroku =
         [example_worker (js ''A'') (Some Approved), example_worker (js ''A'') (Some Approved)],
       kikai_sousa_kiroku = [example_worker (js ''A'') (Some Approved)] \<rparr>"

definition example_env :: env where
  "example_env =
     \<lparr> checkExistingData = (\<lambda>report. Inr []),
       saveToPersonalSheets = (\<lambda>report. Inr (Some \<lparr> result_failedWorkers = None \<rparr>)),
       newDate = (\<lambda>text. ValidDate 2024 1 20) \<rparr>"

definition example_state :: page_state where
  "example_state =
     \<lparr> editedData = None,
       hasChanges = False,
       isSaving = False,
       confirmDialogOpen = False,
       overwriteCallback = None,
       failedWorkers = [],
       missingSheetDialogOpen = False,
       missingSheetMessage = None,
       duplicateDialogOpen = False,
       duplicateInfo = None,
       store_success = None,
       store_currentStep = 3,
       route = ''/confirmation'' \<rparr>"

definition example_report :: OcrResult where
  "example_report =
     \<lparr> header = example_header (Some Approved),
       housou_sagyou_kiroku =
         [example_worker (js ''Sato'') (Some Approved),
          example_worker (js ''Tanaka'') (Some Approved)],
       kikai_sousa_kiroku = [example_worker (js ''Suzuki'') (Some Approved)] \<rparr>"

definition example_pending :: OcrResult where
  "example_pending = example_report\<lparr>header := example_header (Some Pending)\<rparr>"

definition example_env_failed :: env where
  "example_env_failed =
     example_env\<lparr>saveToPersonalSheets :=
       (\<lambda>report. Inr (Some \<lparr> result_failedWorkers = Some [js ''Tanaka''] \<rparr>))\<rparr>"

definition example_env_existing :: env where
  "example_env_existing =
     example_env\<lparr>checkExistingData :=
       (\<lambda>report. Inr [(js ''Sato'', True), (js ''Tanaka'', False)])\<rparr>"

definition example_env_probe_throws :: env where
  "example_env_probe_throws =
     example_env\<lparr>checkExistingData := (\<lambda>report. Inl (JsError (js ''timeout'')))\<rparr>"

definition example_master :: MasterData where
  "example_master =
     \<lparr> products = [js ''P'', js ''Q''], employees = [js ''Sato'', js ''Tanaka''] \<rparr>"

definition example_flagged :: OcrResult where
  "example_flagged =
     \<lparr> header = (example_header (Some Editing))\<lparr>productError := Some (js ''unknown'')\<rparr>,
       housou_sagyou_kiroku =
         [(example_worker (js ''Sato'') (Some Pending))\<lparr>nameError := Some (js ''unknown'')\<rparr>,
          (example_worker (js ''Yamada'') (Some Pending))\<lparr>nameError := Some (js ''unknown'')\<rparr>,
          (example_worker (js ''Ito'') (Some Approved))\<lparr>nameError := Some (js ''unknown'')\<rparr>],
       kikai_sousa_kiroku =
         [example_worker (js ''Tanaka'') (Some Editing),
          (example_worker (js ''Tanaka'') (Some Editing))\<lparr>nameError := Some (js ''unknown'')\<rparr>] \<rparr>"

definition example_env_january :: env where
  "example_env_january = example_env_failed\<lparr>newDate := (\<lambda>text. ValidDate 2024 0 5)\<rparr>"

section \<open>Properties\<close>

subsection \<open>Time input formatting\<close>

lemma digits_only_all_digits: "\<forall>c \<in> set (digits_only x). is_digit c"
  by (simp add: digits_only_def)

lemma digits_only_append: "digits_only (a @ b) = digits_only a @ digits_only b"
  by (simp add: digits_only_def)

lemma digits_only_Cons:
  "digits_only (c # s) = (if is_digit c then c # digits_only s else digits_only s)"
  by (simp add: digits_only_def)

lemma digits_only_Nil: "digits_only [] = []"
  by (simp add: digits_only_def)

lemma colon_not_digit:
  "digits_only (js '':'') = []" "digits_only (js '':00'') = js ''00''"
  by (simp_all add: digits_only_def js_def is_digit_def)

lemma formatTimeInput_none:
  "digits_only x = [] \<Longrightarrow> formatTimeInput x = []"
  by (simp add: formatTimeInput_def)

lemma formatTimeInput_one:
  "digits_only x = [a] \<Longrightarrow> formatTimeInput x = [a] @ js '':00''"
  by (simp add: formatTimeInput_def)

lemma formatTimeInput_two:
  "digits_only x = [a, b] \<Longrightarrow> formatTimeInput x = [a, b] @ js '':00''"
  by (simp add: formatTimeInput_def)

lemma formatTimeInput_three:
  "digits_only x = [a, b, c] \<Longrightarrow> formatTimeInput x = [a] @ js '':'' @ [b, c]"
  by (simp add: formatTimeInput_def js_index_def js_string_of_def js_slice_from_def)

lemma formatTimeInput_four:
  "digits_only x = [a, b, c, e] \<Longrightarrow> formatTimeInput x = [a, b] @ js '':'' @ [c, e]"
  by (simp add: formatTimeInput_def js_slice_def js_slice_from_def)

lemma formatTimeInput_more:
  "digits_only x = a # b # c # e # f # r \<Longrightarrow> formatTimeInput x = [a, b] @ js '':'' @ [c, e]"
  by (simp add: formatTimeInput_def js_slice_def js_slice_from_def)

text \<open>A list has none, one, two, three, four or at least five elements.\<close>

lemma digit_shapes:
  "d = [] \<or> (\<exists>a. d = [a]) \<or> (\<exists>a b. d = [a, b]) \<or> (\<exists>a b c. d = [a, b, c])
   \<or> (\<exists>a b c e. d = [a, b, c, e]) \<or> (\<exists>a b c e f r. d = a # b # c # e # f # r)"
proof (cases d)
  case Nil
  then show ?thesis by simp
next
  case (Cons a d1)
  note c1 = this
  show ?thesis
  proof (cases d1)
    case Nil
    with c1 show ?thesis by simp
  next
    case (Cons b d2)
    note c2 = this
    show ?thesis
    proof (cases d2)
      case Nil
      with c1 c2 show ?thesis by simp
    next
      case (Cons c d3)
      note c3 = this
      show ?thesis
      proof (cases d3)
        case Nil
        with c1 c2 c3 show ?thesis by simp
      next
        case (Cons e d4)
        then show ?thesis using c1 c2 c3 by (cases d4) simp_all
      qed
    qed
  qed
qed

text \<open>
  Claim C7. \<^verbatim>\<open>formatTimeInput\<close> keeps only the digits of its input and formats by
  their number, using them as they are: no digit gives the empty string; one or two
  digits are followed by \<^verbatim>\<open>:00\<close>; three digits give the first, a colon and the last
  two; four digits give the first two, a colon and the last two; more than four give the
  first two, a colon and the next two, the rest being dropped. No range check is made on
  hours or minutes.
\<close>

theorem formatTimeInput_by_digit_count:
  "digits_only input = filter is_digit input
   \<and> (length (digits_only input) = 0 \<longrightarrow> formatTimeInput input = [])
   \<and> (1 \<le> length (digits_only input) \<and> length (digits_only input) \<le> 2 \<longrightarrow>
        formatTimeInput input = digits_only input @ js '':00'')
   \<and> (length (digits_only input) = 3 \<longrightarrow>
        formatTimeInput input =
          [digits_only input ! 0] @ js '':'' @ [digits_only input ! 1, digits_only input ! 2])
   \<and> (length (digits_only input) = 4 \<longrightarrow>
        formatTimeInput input =
          [digits_only input ! 0, digits_only input ! 1] @ js '':''
          @ [digits_only input ! 2, digits_only input ! 3])
   \<and> (4 < length (digits_only input) \<longrightarrow>
        formatTimeInput input =
          [digits_only input ! 0, digits_only input ! 1] @ js '':''
          @ [digits_only input ! 2, digits_only input ! 3])"
proof -
  have "digits_only input = filter is_digit input"
    by (simp add: digits_only_def)
  moreover have
    "(length (digits_only input) = 0 \<longrightarrow> formatTimeInput input = [])
   \<and> (1 \<le> length (digits_only input) \<and> length (digits_only input) \<le> 2 \<longrightarrow>
        formatTimeInput input = digits_only input @ js '':00'')
   \<and> (length (digits_only input) = 3 \<longrightarrow>
        formatTimeInput input =
          [digits_only input ! 0] @ js '':'' @ [digits_only input ! 1, digits_only input ! 2])
   \<and> (length (digits_only input) = 4 \<longrightarrow>
        formatTimeInput input =
          [digits_only input ! 0, digits_only input ! 1] @ js '':''
          @ [digits_only input ! 2, digits_only input ! 3])
   \<and> (4 < length (digits_only input) \<longrightarrow>
        formatTimeInput input =
          [digits_only input ! 0, digits_only input ! 1] @ js '':''
          @ [digits_only input ! 2, digits_only input ! 3])"
    using digit_shapes[of "digits_only input"]
    by (elim disjE exE)
       (simp_all add: formatTimeInput_none formatTimeInput_one formatTimeInput_two
          formatTimeInput_three formatTimeInput_four formatTimeInput_more)
  ultimately show ?thesis by blast
qed

text \<open>
  The examples of the claim, each with the digit count that selects its case; letters and
  punctuation are dropped, and 99:99 is produced as readily as 17:30.
\<close>

theorem formatTimeInput_by_digit_count_witness:
  "(length (digits_only (js ''ab'')) = 0 \<and> formatTimeInput (js ''ab'') = [])
   \<and> (length (digits_only (js ''8'')) = 1 \<and> formatTimeInput (js ''8'') = js ''8:00'')
   \<and> (length (digits_only (js ''17'')) = 2 \<and> formatTimeInput (js ''17'') = js ''17:00'')
   \<and> (length (digits_only (js ''8h30'')) = 3 \<and> formatTimeInput (js ''8h30'') = js ''8:30'')
   \<and> (length (digits_only (js ''9999'')) = 4 \<and> formatTimeInput (js ''9999'') = js ''99:99'')
   \<and> (4 < length (digits_only (js ''173045''))
        \<and> formatTimeInput (js ''173045'') = js ''17:30'')"
  using formatTimeInput_by_digit_count [of "js ''ab''"]
    formatTimeInput_by_digit_count [of "js ''8''"]
    formatTimeInput_by_digit_count [of "js ''17''"]
    formatTimeInput_by_digit_count [of "js ''8h30''"]
    formatTimeInput_by_digit_count [of "js ''9999''"]
    formatTimeInput_by_digit_count [of "js ''173045''"]
  by (simp add: js_def is_digit_def)

text \<open>
  Claim C8. \<^verbatim>\<open>formatTimeInput\<close> is idempotent: formatting a formatted value changes
  nothing. In particular the value 17:30, which already holds a colon, is returned as it
  is.
\<close>

theorem formatTimeInput_idempotent:
  "formatTimeInput (formatTimeInput x) = formatTimeInput x
   \<and> formatTimeInput (js ''17:30'') = js ''17:30''"
proof
  have dig: "\<forall>c \<in> set (digits_only x). is_digit c"
    by (rule digits_only_all_digits)
  note col = colon_not_digit digits_only_Cons digits_only_Nil digits_only_append
  from digit_shapes[of "digits_only x"]
  show "formatTimeInput (formatTimeInput x) = formatTimeInput x"
  proof (elim disjE exE)
    assume h: "digits_only x = []"
    show ?thesis
      by (simp add: formatTimeInput_none[OF h] formatTimeInput_none digits_only_Nil)
  next
    fix a assume h: "digits_only x = [a]"
    with dig have "is_digit a" by simp
    then have "digits_only ([a] @ js '':00'') = [a] @ js ''00''"
      by (simp add: col)
    then have "digits_only (formatTimeInput x) = [a, 0x30, 0x30]"
      by (simp add: formatTimeInput_one[OF h] js_def)
    then show ?thesis
      by (simp add: formatTimeInput_three formatTimeInput_one[OF h] js_def)
  next
    fix a b assume h: "digits_only x = [a, b]"
    with dig have "is_digit a" "is_digit b" by simp_all
    then have "digits_only ([a, b] @ js '':00'') = [a, b] @ js ''00''"
      by (simp add: col)
    then have "digits_only (formatTimeInput x) = [a, b, 0x30, 0x30]"
      by (simp add: formatTimeInput_two[OF h] js_def)
    then show ?thesis
      by (simp add: formatTimeInput_four formatTimeInput_two[OF h] js_def)
  next
    fix a b c assume h: "digits_only x = [a, b, c]"
    with dig have "is_digit a" "is_digit b" "is_digit c" by simp_all
    then have "digits_only ([a] @ js '':'' @ [b, c]) = [a, b, c]"
      by (simp add: col)
    then show ?thesis
      by (simp add: formatTimeInput_three[OF h] formatTimeInput_three)
  next
    fix a b c e assume h: "digits_only x = [a, b, c, e]"
    with dig have "is_digit a" "is_digit b" "is_digit c" "is_digit e" by simp_all
    then have "digits_only ([a, b] @ js '':'' @ [c, e]) = [a, b, c, e]"
      by (simp add: col)
    then show ?thesis
      by (simp add: formatTimeInput_four[OF h] formatTimeInput_four)
  next
    fix a b c e f r assume h: "digits_only x = a # b # c # e # f # r"
    with dig have "is_digit a" "is_digit b" "is_digit c" "is_digit e" by simp_all
    then have "digits_only ([a, b] @ js '':'' @ [c, e]) = [a, b, c, e]"
      by (simp add: col)
    then show ?thesis
      by (simp add: formatTimeInput_more[OF h] formatTimeInput_four)
  qed
next
  show "formatTimeInput (js ''17:30'') = js ''17:30''"
    by (simp add: formatTimeInput_def digits_only_def js_def is_digit_def
        js_slice_def js_slice_from_def)
qed

subsection \<open>Duplicate detection\<close>

lemma map_get_or_zero_eq:
  "map_get_or_zero al n = (case map_of al n of None \<Rightarrow> 0 | Some c \<Rightarrow> c)"
  by (simp add: map_get_or_zero_def split: option.splits)

lemma count_name_distinct:
  "distinct (map fst al) \<Longrightarrow> distinct (map fst (count_name n al))"
  by (simp add: count_name_def distinct_update)

lemma count_name_get:
  "map_get_or_zero (count_name n al) m =
     map_get_or_zero al m + (if m = n \<and> is_counted n then 1 else 0)"
  by (simp add: count_name_def map_get_or_zero_eq update_conv' split: option.splits)

lemma fold_count_name_distinct:
  "distinct (map fst al) \<Longrightarrow> distinct (map fst (fold count_name names al))"
  by (induction names arbitrary: al) (simp_all add: count_name_distinct)

text \<open>After the loop, a name's entry is its entry before plus its counted occurrences.\<close>

lemma fold_count_name_get:
  "map_get_or_zero (fold count_name names al) m =
     map_get_or_zero al m + (if is_counted m then count_list names m else 0)"
  by (induction names arbitrary: al) (auto simp: count_name_get)

text \<open>Trimming leaves something exactly when some code unit is not white space.\<close>

lemma js_trim_truthy:
  "js_truthy (js_trim s) \<longleftrightarrow> (\<exists>c \<in> set s. \<not> is_js_whitespace c)"
proof -
  have "js_truthy (js_trim s)
        \<longleftrightarrow> (\<exists>c \<in> set (dropWhile is_js_whitespace s). \<not> is_js_whitespace c)"
    by (simp add: js_truthy_def js_trim_def dropWhile_eq_Nil_conv)
  also have "\<dots> \<longleftrightarrow> (\<exists>c \<in> set s. \<not> is_js_whitespace c)"
  proof
    assume "\<exists>c \<in> set (dropWhile is_js_whitespace s). \<not> is_js_whitespace c"
    then show "\<exists>c \<in> set s. \<not> is_js_whitespace c"
      using set_dropWhileD by fast
  next
    assume "\<exists>c \<in> set s. \<not> is_js_whitespace c"
    then have ne: "dropWhile is_js_whitespace s \<noteq> []"
      by (simp add: dropWhile_eq_Nil_conv)
    then have "\<not> is_js_whitespace (hd (dropWhile is_js_whitespace s))"
      by (rule hd_dropWhile)
    with ne show "\<exists>c \<in> set (dropWhile is_js_whitespace s). \<not> is_js_whitespace c"
      using hd_in_set by blast
  qed
  finally show ?thesis .
qed

lemma is_counted_iff: "is_counted n \<longleftrightarrow> (\<exists>c \<in> set n. \<not> is_js_whitespace c)"
  unfolding is_counted_def js_trim_truthy by (auto simp: js_truthy_def)

lemma set_findDuplicates:
  "set (findDuplicates names) = {n. is_counted n \<and> 1 < count_list names n}"
proof -
  let ?al = "fold count_name names []"
  have d: "distinct (map fst ?al)"
    by (rule fold_count_name_distinct) simp
  have g: "map_get_or_zero ?al n = (if is_counted n then count_list names n else 0)" for n
    by (simp add: fold_count_name_get) (simp add: map_get_or_zero_def)
  have m: "n \<in> set (findDuplicates names) \<longleftrightarrow> 1 < map_get_or_zero ?al n" for n
  proof -
    have "n \<in> set (findDuplicates names) \<longleftrightarrow> (\<exists>c. (n, c) \<in> set ?al \<and> 1 < c)"
      by (force simp: findDuplicates_def)
    also have "\<dots> \<longleftrightarrow> (\<exists>c. map_of ?al n = Some c \<and> 1 < c)"
      using d by (simp add: map_of_eq_Some_iff)
    also have "\<dots> \<longleftrightarrow> 1 < map_get_or_zero ?al n"
      by (simp add: map_get_or_zero_eq split: option.splits)
    finally show ?thesis .
  qed
  have "n \<in> set (findDuplicates names) \<longleftrightarrow> is_counted n \<and> 1 < count_list names n" for n
    unfolding m g by simp
  then show ?thesis by (intro set_eqI) simp
qed

lemma distinct_findDuplicates: "distinct (findDuplicates names)"
proof -
  have "distinct (map fst (fold count_name names []))"
    by (rule fold_count_name_distinct) simp
  then show ?thesis
    unfolding findDuplicates_def by (rule distinct_map_filter)
qed

lemma findDuplicates_Nil_iff:
  "findDuplicates names = [] \<longleftrightarrow> (\<forall>n. is_counted n \<longrightarrow> count_list names n \<le> 1)"
proof -
  have "findDuplicates names = [] \<longleftrightarrow> set (findDuplicates names) = {}"
    by simp
  also have "\<dots> \<longleftrightarrow> (\<forall>n. is_counted n \<longrightarrow> count_list names n \<le> 1)"
    by (auto simp: set_findDuplicates not_less)
  finally show ?thesis .
qed

lemma count_list_distinct: "distinct names \<Longrightarrow> count_list names n \<le> 1"
  by (induction names) (auto simp: count_list_0_iff)

text \<open>
  Claim C3. For every list of names the duplicate detector returns, each once, exactly
  the names that occur more than once in the list, where a name that is empty or made of
  white space only is never counted. The packaging result is computed from the names of
  the packaging list alone and the machine result from those of the machine list alone.
  The empty list, the list holding only the empty name, and every list without a
  repeated name give the empty result.
\<close>

theorem findDuplicates_exact:
  "set (findDuplicates names) =
     {n. (\<exists>c \<in> set n. \<not> is_js_whitespace c) \<and> 1 < count_list names n}
   \<and> distinct (findDuplicates names)
   \<and> packaging (checkForDuplicates data) =
       findDuplicates (map shimei (housou_sagyou_kiroku data))
   \<and> machine (checkForDuplicates data) =
       findDuplicates (map shimei (kikai_sousa_kiroku data))
   \<and> (hasDuplicates (checkForDuplicates data) \<longleftrightarrow>
       packaging (checkForDuplicates data) \<noteq> [] \<or> machine (checkForDuplicates data) \<noteq> [])
   \<and> findDuplicates [] = []
   \<and> findDuplicates [[]] = []
   \<and> (distinct names \<longrightarrow> findDuplicates names = [])"
proof -
  have "set (findDuplicates names) =
     {n. (\<exists>c \<in> set n. \<not> is_js_whitespace c) \<and> 1 < count_list names n}"
    by (simp add: set_findDuplicates is_counted_iff)
  moreover have "distinct (findDuplicates names)"
    by (rule distinct_findDuplicates)
  moreover have "packaging (checkForDuplicates data) =
       findDuplicates (map shimei (housou_sagyou_kiroku data))"
    by (simp add: checkForDuplicates_def Let_def)
  moreover have "machine (checkForDuplicates data) =
       findDuplicates (map shimei (kikai_sousa_kiroku data))"
    by (simp add: checkForDuplicates_def Let_def)
  moreover have "hasDuplicates (checkForDuplicates data) \<longleftrightarrow>
       packaging (checkForDuplicates data) \<noteq> [] \<or> machine (checkForDuplicates data) \<noteq> []"
    by (simp add: checkForDuplicates_def Let_def)
  moreover have "findDuplicates [] = []"
    by (simp add: findDuplicates_def)
  moreover have "findDuplicates [[]] = []"
    by (simp add: findDuplicates_def count_name_def is_counted_def js_truthy_def)
  moreover have "distinct names \<longrightarrow> findDuplicates names = []"
    using count_list_distinct [of names] by (simp add: findDuplicates_Nil_iff)
  ultimately show ?thesis by blast
qed

text \<open>
  Two workers named A among blank and space-only names are reported once; a report whose
  packaging list holds A twice and whose machine list holds A once has a packaging
  duplicate and no machine duplicate; the names A and B are distinct and give nothing.
\<close>

theorem findDuplicates_exact_witness:
  "findDuplicates [js ''A'', js '' '', js ''A'', [], js '' '', [0x3000], [0x3000]] = [js ''A'']
   \<and> packaging (checkForDuplicates example_duplicated) = [js ''A'']
   \<and> machine (checkForDuplicates example_duplicated) = []
   \<and> hasDuplicates (checkForDuplicates example_duplicated)
   \<and> distinct [js ''A'', js ''B'']
   \<and> findDuplicates [js ''A'', js ''B''] = []"
proof -
  have ev: "findDuplicates [js ''A'', js '' '', js ''A'', [], js '' '', [0x3000], [0x3000]]
            = [js ''A'']"
    by (simp add: findDuplicates_def count_name_def is_counted_def js_truthy_def js_trim_def
        is_js_whitespace_def js_def map_get_or_zero_def)
  have two: "findDuplicates [js ''A'', js ''A''] = [js ''A'']"
    by (simp add: findDuplicates_def count_name_def is_counted_def js_truthy_def js_trim_def
        is_js_whitespace_def js_def map_get_or_zero_def)
  have one: "findDuplicates [js ''A''] = []"
    by (simp add: findDuplicates_def count_name_def is_counted_def js_truthy_def js_trim_def
        is_js_whitespace_def js_def map_get_or_zero_def)
  have d: "distinct [js ''A'', js ''B'']"
    by (simp add: js_def)
  from findDuplicates_exact [of "[js ''A'', js ''B'']" example_duplicated] d ev two one
  show ?thesis
    by (simp add: example_duplicated_def example_worker_def)
qed

subsection \<open>The validation gates of a save request\<close>

lemma hasPendingNames_iff:
  "hasPendingNames d \<longleftrightarrow>
     (\<exists>r \<in> set (housou_sagyou_kiroku d) \<union> set (kikai_sousa_kiroku d).
        nameConfirmationStatus r = Some Pending)"
  by (auto simp: hasPendingNames_def list_ex_iff)

lemma hasEditingItems_iff:
  "hasEditingItems d \<longleftrightarrow>
     productConfirmationStatus (header d) = Some Editing
     \<or> (\<exists>r \<in> set (housou_sagyou_kiroku d) \<union> set (kikai_sousa_kiroku d).
          nameConfirmationStatus r = Some Editing)"
  by (auto simp: hasEditingItems_def list_ex_iff)

text \<open>
  The gate blocks exactly when the product status or the name status of some worker of
  either list is pending or editing.
\<close>

lemma confirmation_gate_blocks_iff:
  "confirmation_gate_blocks d \<longleftrightarrow>
     productConfirmationStatus (header d) \<in> {Some Pending, Some Editing}
     \<or> (\<exists>r \<in> set (housou_sagyou_kiroku d) \<union> set (kikai_sousa_kiroku d).
          nameConfirmationStatus r \<in> {Some Pending, Some Editing})"
  unfolding confirmation_gate_blocks_def hasPendingNames_iff hasEditingItems_iff
    hasPendingProduct_def
  by blast

lemma handleSave_gate_alert:
  "confirmation_gate_blocks d \<Longrightarrow>
     handleSave e (Some d) = [Alert UnconfirmedItems] \<or> handleSave e (Some d) = [Alert EditingItems]"
  by (auto simp: handleSave_def confirmation_gate_blocks_def)

lemma handleSave_duplicates:
  "\<not> confirmation_gate_blocks d \<Longrightarrow> hasDuplicates (checkForDuplicates d) \<Longrightarrow>
     handleSave e (Some d) =
       [SetDuplicateInfo (Some \<lparr> packaging = packaging (checkForDuplicates d),
                                 machine = machine (checkForDuplicates d) \<rparr>),
        SetDuplicateDialogOpen True]"
  by (simp add: handleSave_def confirmation_gate_blocks_def Let_def)

lemma handleSave_probe:
  "\<not> confirmation_gate_blocks d \<Longrightarrow> \<not> hasDuplicates (checkForDuplicates d) \<Longrightarrow>
     handleSave e (Some d) =
       [SetIsSaving True, CallCheckExistingData d] @
       (case checkExistingData e d of
          Inr existingDataMap \<Rightarrow>
            if hasAnyExistingData existingDataMap then
              [SetOverwriteCallback (Some d), SetConfirmDialogOpen True, SetIsSaving False]
            else performSave e d
        | Inl error \<Rightarrow> [ConsoleError (ExistingDataCheckErrorLog error)] @ performSave e d)"
  by (simp add: handleSave_def confirmation_gate_blocks_def Let_def)

lemma handleSave_blocked:
  "blocked (handleSave e (Some d)) \<longleftrightarrow>
     confirmation_gate_blocks d \<or> hasDuplicates (checkForDuplicates d)"
proof (cases "confirmation_gate_blocks d")
  case True
  with handleSave_gate_alert [of d e] show ?thesis
    by (auto simp: blocked_def)
next
  case False
  note g = this
  show ?thesis
  proof (cases "hasDuplicates (checkForDuplicates d)")
    case True
    with g show ?thesis
      by (simp add: handleSave_duplicates blocked_def)
  next
    case False
    with g show ?thesis
      by (simp add: handleSave_probe blocked_def)
  qed
qed

text \<open>
  Claim C1, as the page implements it. A save request is blocked, that is a message is
  shown and no external call is made, if and only if the product status or the name
  status of some worker in the packaging or the machine list is pending or editing, or
  one of the two lists holds a duplicated name. When a pending or editing status blocks
  it, the request does nothing but show one alert, and the report and all other state
  stay as they were. When duplicates block it, the request only stores the duplicate
  names and opens the duplicate dialog; the report stays as it was.
\<close>

theorem handleSave_blocked_iff:
  "(blocked (handleSave e (Some d)) \<longleftrightarrow>
      (productConfirmationStatus (header d) \<in> {Some Pending, Some Editing}
       \<or> (\<exists>r \<in> set (housou_sagyou_kiroku d) \<union> set (kikai_sousa_kiroku d).
            nameConfirmationStatus r \<in> {Some Pending, Some Editing}))
      \<or> hasDuplicates (checkForDuplicates d))
   \<and> (productConfirmationStatus (header d) \<in> {Some Pending, Some Editing}
       \<or> (\<exists>r \<in> set (housou_sagyou_kiroku d) \<union> set (kikai_sousa_kiroku d).
            nameConfirmationStatus r \<in> {Some Pending, Some Editing})
       \<longrightarrow> (handleSave e (Some d) = [Alert UnconfirmedItems]
            \<or> handleSave e (Some d) = [Alert EditingItems])
           \<and> run (handleSave e (Some d)) s = s)
   \<and> (\<not> (productConfirmationStatus (header d) \<in> {Some Pending, Some Editing}
          \<or> (\<exists>r \<in> set (housou_sagyou_kiroku d) \<union> set (kikai_sousa_kiroku d).
               nameConfirmationStatus r \<in> {Some Pending, Some Editing}))
       \<and> hasDuplicates (checkForDuplicates d)
       \<longrightarrow> run (handleSave e (Some d)) s =
             s\<lparr>duplicateInfo := Some \<lparr> packaging = packaging (checkForDuplicates d),
                                        machine = machine (checkForDuplicates d) \<rparr>,
               duplicateDialogOpen := True\<rparr>)"
proof (intro conjI impI)
  show "blocked (handleSave e (Some d)) \<longleftrightarrow>
      (productConfirmationStatus (header d) \<in> {Some Pending, Some Editing}
       \<or> (\<exists>r \<in> set (housou_sagyou_kiroku d) \<union> set (kikai_sousa_kiroku d).
            nameConfirmationStatus r \<in> {Some Pending, Some Editing}))
      \<or> hasDuplicates (checkForDuplicates d)"
    unfolding handleSave_blocked confirmation_gate_blocks_iff ..
next
  assume "productConfirmationStatus (header d) \<in> {Some Pending, Some Editing}
       \<or> (\<exists>r \<in> set (housou_sagyou_kiroku d) \<union> set (kikai_sousa_kiroku d).
            nameConfirmationStatus r \<in> {Some Pending, Some Editing})"
  then have g: "confirmation_gate_blocks d"
    unfolding confirmation_gate_blocks_iff .
  from handleSave_gate_alert [OF g, of e]
  show "handleSave e (Some d) = [Alert UnconfirmedItems]
        \<or> handleSave e (Some d) = [Alert EditingItems]" .
  from handleSave_gate_alert [OF g, of e]
  show "run (handleSave e (Some d)) s = s"
    by (auto simp: run_def)
next
  assume "\<not> (productConfirmationStatus (header d) \<in> {Some Pending, Some Editing}
          \<or> (\<exists>r \<in> set (housou_sagyou_kiroku d) \<union> set (kikai_sousa_kiroku d).
               nameConfirmationStatus r \<in> {Some Pending, Some Editing}))
       \<and> hasDuplicates (checkForDuplicates d)"
  then have g: "\<not> confirmation_gate_blocks d" and dup: "hasDuplicates (checkForDuplicates d)"
    unfolding confirmation_gate_blocks_iff by blast+
  show "run (handleSave e (Some d)) s =
             s\<lparr>duplicateInfo := Some \<lparr> packaging = packaging (checkForDuplicates d),
                                        machine = machine (checkForDuplicates d) \<rparr>,
               duplicateDialogOpen := True\<rparr>"
    by (simp add: handleSave_duplicates [OF g dup] run_def)
qed

lemma findDuplicates_examples:
  "findDuplicates [js ''A'', js ''A''] = [js ''A'']"
  "findDuplicates [js ''A''] = []"
  "findDuplicates [js ''Sato'', js ''Tanaka''] = []"
  "findDuplicates [js ''Suzuki''] = []"
  by (simp_all add: findDuplicates_def count_name_def is_counted_def js_truthy_def js_trim_def
      is_js_whitespace_def js_def map_get_or_zero_def)

lemma example_duplicated_check:
  "checkForDuplicates example_duplicated =
     \<lparr> packaging = [js ''A''], machine = [], hasDuplicates = True \<rparr>"
  by (simp add: checkForDuplicates_def example_duplicated_def example_worker_def
      findDuplicates_examples)

lemma example_report_check:
  "checkForDuplicates example_report =
     \<lparr> packaging = [], machine = [], hasDuplicates = False \<rparr>"
  "checkForDuplicates example_pending =
     \<lparr> packaging = [], machine = [], hasDuplicates = False \<rparr>"
  by (simp_all add: checkForDuplicates_def example_report_def example_pending_def
      example_worker_def findDuplicates_examples)

lemma example_gate:
  "\<not> confirmation_gate_blocks example_duplicated"
  "\<not> confirmation_gate_blocks example_report"
  "confirmation_gate_blocks example_pending"
  by (simp_all add: confirmation_gate_blocks_def hasPendingProduct_def hasPendingNames_def
      hasEditingItems_def example_duplicated_def example_report_def example_pending_def
      example_worker_def example_header_def)

text \<open>
  A pending product with every worker approved blocks with an alert and changes nothing;
  a duplicated name with everything approved blocks with the duplicate dialog.
\<close>

theorem handleSave_blocked_iff_witness:
  "productConfirmationStatus (header example_pending) = Some Pending
   \<and> map nameConfirmationStatus (housou_sagyou_kiroku example_pending)
       = [Some Approved, Some Approved]
   \<and> map nameConfirmationStatus (kikai_sousa_kiroku example_pending) = [Some Approved]
   \<and> blocked (handleSave example_env (Some example_pending))
   \<and> run (handleSave example_env (Some example_pending)) example_state = example_state
   \<and> hasDuplicates (checkForDuplicates example_duplicated)
   \<and> blocked (handleSave example_env (Some example_duplicated))
   \<and> run (handleSave example_env (Some example_duplicated)) example_state =
       example_state\<lparr>duplicateInfo := Some \<lparr> packaging = [js ''A''], machine = [] \<rparr>,
                      duplicateDialogOpen := True\<rparr>"
proof -
  have p: "productConfirmationStatus (header example_pending) = Some Pending"
    "map nameConfirmationStatus (housou_sagyou_kiroku example_pending)
       = [Some Approved, Some Approved]"
    "map nameConfirmationStatus (kikai_sousa_kiroku example_pending) = [Some Approved]"
    by (simp_all add: example_pending_def example_report_def example_header_def
        example_worker_def)
  have q: "\<not> (productConfirmationStatus (header example_duplicated) \<in> {Some Pending, Some Editing}
          \<or> (\<exists>r \<in> set (housou_sagyou_kiroku example_duplicated)
                     \<union> set (kikai_sousa_kiroku example_duplicated).
               nameConfirmationStatus r \<in> {Some Pending, Some Editing}))"
    using example_gate(1) unfolding confirmation_gate_blocks_iff .
  from handleSave_blocked_iff [of example_env example_pending example_state]
    handleSave_blocked_iff [of example_env example_duplicated example_state]
    p q example_duplicated_check
  show ?thesis by simp
qed

text \<open>
  Claim C1, as stated, fails on the page: with the product and every worker approved and
  the name A twice in the packaging list, the request is blocked all the same (the
  duplicate dialog is shown and no external call is made), and the page state is not
  left as it was.
\<close>

theorem handleSave_blocked_counterexample:
  "productConfirmationStatus (header example_duplicated) = Some Approved
   \<and> map nameConfirmationStatus (housou_sagyou_kiroku example_duplicated)
       = [Some Approved, Some Approved]
   \<and> map nameConfirmationStatus (kikai_sousa_kiroku example_duplicated) = [Some Approved]
   \<and> \<not> confirmation_gate_blocks example_duplicated
   \<and> handleSave example_env (Some example_duplicated) =
       [SetDuplicateInfo (Some \<lparr> packaging = [js ''A''], machine = [] \<rparr>),
        SetDuplicateDialogOpen True]
   \<and> blocked (handleSave example_env (Some example_duplicated))
   \<and> run (handleSave example_env (Some example_duplicated)) example_state \<noteq> example_state"
proof -
  have p: "productConfirmationStatus (header example_duplicated) = Some Approved"
    "map nameConfirmationStatus (housou_sagyou_kiroku example_duplicated)
       = [Some Approved, Some Approved]"
    "map nameConfirmationStatus (kikai_sousa_kiroku example_duplicated) = [Some Approved]"
    by (simp_all add: example_duplicated_def example_header_def example_worker_def)
  have h: "handleSave example_env (Some example_duplicated) =
       [SetDuplicateInfo (Some \<lparr> packaging = [js ''A''], machine = [] \<rparr>),
        SetDuplicateDialogOpen True]"
    using example_gate(1)
    by (simp add: handleSave_def confirmation_gate_blocks_def example_duplicated_check)
  have b: "blocked (handleSave example_env (Some example_duplicated))"
    by (simp add: h blocked_def)
  have "duplicateDialogOpen (run (handleSave example_env (Some example_duplicated)) example_state)
        \<noteq> duplicateDialogOpen example_state"
    by (simp add: h run_def example_state_def)
  then have r: "run (handleSave example_env (Some example_duplicated)) example_state
                \<noteq> example_state"
    by auto
  from p example_gate(1) h b r show ?thesis by simp
qed

subsection \<open>The commit\<close>

text \<open>The three ways \<^verbatim>\<open>performSave\<close> can go, each with the whole run.\<close>

lemma performSave_failed:
  "saveToPersonalSheets e d = Inr result \<Longrightarrow> reported_failures result = Some ws \<Longrightarrow>
     performSave e d =
       [SetIsSaving True, CallSaveToPersonalSheets d, SetFailedWorkers ws,
        SetEditedData (d\<lparr>housou_sagyou_kiroku :=
                           filter (\<lambda>record. shimei record \<in> set ws) (housou_sagyou_kiroku d),
                         kikai_sousa_kiroku :=
                           filter (\<lambda>record. shimei record \<in> set ws) (kikai_sousa_kiroku d)\<rparr>),
        SetMissingSheetMessage
          (MissingSheet (period_of_date (newDate e (sagyoubi (header d)))) ws),
        SetMissingSheetDialogOpen True,
        SetIsSaving False]"
  by (simp add: performSave_def performSave_begin_def performSave_settle_def Let_def)

lemma performSave_saved:
  "saveToPersonalSheets e d = Inr result \<Longrightarrow> reported_failures result = None \<Longrightarrow>
     performSave e d =
       [SetIsSaving True, CallSaveToPersonalSheets d, SetSuccess DataSaved, SetCurrentStep 4,
        Navigate ''/success'', SetIsSaving False]"
  by (simp add: performSave_def performSave_begin_def performSave_settle_def)

lemma performSave_thrown:
  "saveToPersonalSheets e d = Inl error \<Longrightarrow>
     performSave e d =
       [SetIsSaving True, CallSaveToPersonalSheets d, ConsoleError (SaveErrorLog error),
        Alert (save_error_message error), SetIsSaving False]"
  by (simp add: performSave_def performSave_begin_def performSave_settle_def)

lemma performSave_cases:
  obtains (failed) result ws where
      "saveToPersonalSheets e d = Inr result" "reported_failures result = Some ws"
    | (saved) result where
      "saveToPersonalSheets e d = Inr result" "reported_failures result = None"
    | (thrown) error where "saveToPersonalSheets e d = Inl error"
proof (cases "saveToPersonalSheets e d")
  case (Inl error)
  then show ?thesis by (rule thrown)
next
  case (Inr result)
  then show ?thesis
    by (cases "reported_failures result") (auto intro: saved failed)
qed

text \<open>Confirming the overwrite is the same commit with the dialog closed on the way.\<close>

lemma confirmOverwrite_eq:
  "confirmOverwrite e (Some d) =
     take 2 (performSave e d) @ [SetConfirmDialogOpen False] @ drop 2 (performSave e d)"
  by (simp add: confirmOverwrite_def performSave_def performSave_begin_def)

lemma reported_failures_Some:
  "result_failedWorkers r = Some ws \<Longrightarrow> ws \<noteq> [] \<Longrightarrow> reported_failures (Some r) = Some ws"
  by (simp add: reported_failures_def)

text \<open>
  Claim C4. When the commit returns a non-empty \<^verbatim>\<open>failedWorkers\<close> list, the report
  stored by \<^verbatim>\<open>performSave\<close> is the original one with the packaging and the machine
  list filtered, in their order, to the records whose name is among the failed workers;
  the failed workers are remembered; the saving flag is false at the end; and the run
  holds no navigation, so the route stays. The same holds when the commit was started
  from the overwrite dialog.
\<close>

theorem performSave_partial_failure:
  "saveToPersonalSheets e d = Inr (Some r) \<Longrightarrow> result_failedWorkers r = Some ws \<Longrightarrow>
   ws \<noteq> [] \<Longrightarrow>
     editedData (run (performSave e d) s) =
       Some (d\<lparr>housou_sagyou_kiroku :=
                  filter (\<lambda>record. shimei record \<in> set ws) (housou_sagyou_kiroku d),
                kikai_sousa_kiroku :=
                  filter (\<lambda>record. shimei record \<in> set ws) (kikai_sousa_kiroku d)\<rparr>)
     \<and> failedWorkers (run (performSave e d) s) = ws
     \<and> isSaving (run (performSave e d) s) = False
     \<and> \<not> list_ex is_navigation (performSave e d)
     \<and> route (run (performSave e d) s) = route s
     \<and> run (confirmOverwrite e (Some d)) s =
         (run (performSave e d) s)\<lparr>confirmDialogOpen := False\<rparr>
     \<and> \<not> list_ex is_navigation (confirmOverwrite e (Some d))"
proof -
  assume a: "saveToPersonalSheets e d = Inr (Some r)" "result_failedWorkers r = Some ws"
    "ws \<noteq> []"
  have f: "reported_failures (Some r) = Some ws"
    using a(2,3) by (rule reported_failures_Some)
  note p = performSave_failed [OF a(1) f]
  show ?thesis
    unfolding confirmOverwrite_eq p by (simp add: run_def)
qed

text \<open>
  The scenario of the claim: the packaging workers are Sato and Tanaka, the commit
  reports Tanaka as failed. Only Tanaka's record stays, the machine list (Suzuki) is
  emptied, the flag is false again and the route is still the confirmation page; the
  save request that led here ran the probe and then this commit.
\<close>

theorem performSave_partial_failure_witness:
  "saveToPersonalSheets example_env_failed example_report =
     Inr (Some \<lparr> result_failedWorkers = Some [js ''Tanaka''] \<rparr>)
   \<and> [js ''Tanaka''] \<noteq> []
   \<and> map shimei (housou_sagyou_kiroku example_report) = [js ''Sato'', js ''Tanaka'']
   \<and> editedData (run (performSave example_env_failed example_report) example_state) =
       Some (example_report\<lparr>housou_sagyou_kiroku :=
                               [example_worker (js ''Tanaka'') (Some Approved)],
                             kikai_sousa_kiroku := []\<rparr>)
   \<and> failedWorkers (run (performSave example_env_failed example_report) example_state)
       = [js ''Tanaka'']
   \<and> isSaving (run (performSave example_env_failed example_report) example_state) = False
   \<and> route (run (performSave example_env_failed example_report) example_state)
       = ''/confirmation''
   \<and> handleSave example_env_failed (Some example_report) =
       [SetIsSaving True, CallCheckExistingData example_report]
       @ performSave example_env_failed example_report"
proof -
  have c: "saveToPersonalSheets example_env_failed example_report =
     Inr (Some \<lparr> result_failedWorkers = Some [js ''Tanaka''] \<rparr>)"
    by (simp add: example_env_failed_def)
  have n: "map shimei (housou_sagyou_kiroku example_report) = [js ''Sato'', js ''Tanaka'']"
    by (simp add: example_report_def example_worker_def)
  have fp: "filter (\<lambda>record. shimei record \<in> set [js ''Tanaka''])
              (housou_sagyou_kiroku example_report)
            = [example_worker (js ''Tanaka'') (Some Approved)]"
    by (simp add: example_report_def example_worker_def js_def)
  have fm: "filter (\<lambda>record. shimei record \<in> set [js ''Tanaka''])
              (kikai_sousa_kiroku example_report) = []"
    by (simp add: example_report_def example_worker_def js_def)
  have h: "handleSave example_env_failed (Some example_report) =
       [SetIsSaving True, CallCheckExistingData example_report]
       @ performSave example_env_failed example_report"
    using example_gate(2)
    by (simp add: handleSave_probe example_report_check example_env_failed_def
        example_env_def hasAnyExistingData_def)
  have r: "route example_state = ''/confirmation''"
    by (simp add: example_state_def)
  from performSave_partial_failure [of example_env_failed example_report
      "\<lparr> result_failedWorkers = Some [js ''Tanaka''] \<rparr>" "[js ''Tanaka'']" example_state]
    c n fp fm h r
  show ?thesis by simp
qed

subsection \<open>The accounting period\<close>

text \<open>
  Claim C6. For every work date the accounting period is the previous calendar month
  when the day of the month is at most 20, which for January is December of the previous
  year, and the date's own year and month otherwise. Counting months linearly, the period
  is one month back exactly for the days up to 20, and a month from 1 to 12 gives a month
  from 1 to 12. This is the period that \<^verbatim>\<open>performSave\<close> puts into its message on a
  partial failure, from the year, \<^verbatim>\<open>getMonth() + 1\<close> and the day that the
  \<^verbatim>\<open>Date\<close> of the work date answers. The dates 2024-02-20, 2024-02-21 and 2024-01-05
  give (2024, 1), (2024, 2) and (2023, 12).
\<close>

theorem accounting_period_cycle:
  "accounting_period year month day =
     (if day \<le> 20 then (if month = 1 then (year - 1, 12) else (year, month - 1))
      else (year, month))
   \<and> (1 \<le> month \<and> month \<le> 12 \<longrightarrow>
        1 \<le> snd (accounting_period year month day)
        \<and> snd (accounting_period year month day) \<le> 12
        \<and> 12 * fst (accounting_period year month day) + snd (accounting_period year month day)
            = 12 * year + month - (if day \<le> 20 then 1 else 0))
   \<and> (saveToPersonalSheets e d = Inr result \<and> reported_failures result = Some ws
        \<and> newDate e (sagyoubi (header d)) = ValidDate year (month - 1) day \<longrightarrow>
        SetMissingSheetMessage (MissingSheet (Some (accounting_period year month day)) ws)
          \<in> set (performSave e d))
   \<and> accounting_period 2024 2 20 = (2024, 1)
   \<and> accounting_period 2024 2 21 = (2024, 2)
   \<and> accounting_period 2024 1 5 = (2023, 12)"
proof -
  have "saveToPersonalSheets e d = Inr result \<and> reported_failures result = Some ws
        \<and> newDate e (sagyoubi (header d)) = ValidDate year (month - 1) day \<longrightarrow>
        SetMissingSheetMessage (MissingSheet (Some (accounting_period year month day)) ws)
          \<in> set (performSave e d)"
    by (simp add: performSave_failed period_of_date_def)
  then show ?thesis
    by (simp add: accounting_period_def)
qed

text \<open>
  The fifth of January 2024, for which \<^verbatim>\<open>getMonth\<close> answers 0: the period is December
  2023, and that is the period in the message when Tanaka's sheet is missing.
\<close>

theorem accounting_period_cycle_witness:
  "(1::int) \<le> 1 \<and> (1::int) \<le> 12
   \<and> accounting_period 2024 1 5 = (2023, 12)
   \<and> 12 * fst (accounting_period 2024 1 5) + snd (accounting_period 2024 1 5) = 12 * 2024 + 1 - 1
   \<and> saveToPersonalSheets example_env_january example_report =
       Inr (Some \<lparr> result_failedWorkers = Some [js ''Tanaka''] \<rparr>)
   \<and> reported_failures (Some \<lparr> result_failedWorkers = Some [js ''Tanaka''] \<rparr>)
       = Some [js ''Tanaka'']
   \<and> newDate example_env_january (sagyoubi (header example_report)) = ValidDate 2024 0 5
   \<and> SetMissingSheetMessage (MissingSheet (Some (2023, 12)) [js ''Tanaka''])
       \<in> set (performSave example_env_january example_report)"
proof -
  have c: "saveToPersonalSheets example_env_january example_report =
       Inr (Some \<lparr> result_failedWorkers = Some [js ''Tanaka''] \<rparr>)"
    by (simp add: example_env_january_def example_env_failed_def)
  have f: "reported_failures (Some \<lparr> result_failedWorkers = Some [js ''Tanaka''] \<rparr>)
       = Some [js ''Tanaka'']"
    by (simp add: reported_failures_def)
  have n: "newDate example_env_january (sagyoubi (header example_report)) = ValidDate 2024 0 5"
    by (simp add: example_env_january_def)
  from accounting_period_cycle [of 2024 1 5 example_env_january example_report
      "Some \<lparr> result_failedWorkers = Some [js ''Tanaka''] \<rparr>" "[js ''Tanaka'']"] c f n
  show ?thesis
    by (simp add: accounting_period_def)
qed

subsection \<open>The existence probe\<close>

lemma performSave_env:
  "performSave (e\<lparr>checkExistingData := probe\<rparr>) d = performSave e d"
  by (simp add: performSave_def performSave_settle_def Let_def
      split: sum.splits option.splits)

lemma performSave_has_commit: "CallSaveToPersonalSheets d \<in> set (performSave e d)"
  by (simp add: performSave_def performSave_begin_def)

lemma performSave_no_dialog_change:
  "SetConfirmDialogOpen b \<notin> set (performSave e d)"
  "SetOverwriteCallback c \<notin> set (performSave e d)"
  by (cases e d rule: performSave_cases;
      simp add: performSave_failed performSave_saved performSave_thrown)+

lemma performSave_confirmDialogOpen:
  "confirmDialogOpen (run (performSave e d) s) = confirmDialogOpen s"
  by (cases e d rule: performSave_cases)
     (simp_all add: performSave_failed performSave_saved performSave_thrown run_def)

lemma run_append: "run (xs @ ys) s = run ys (run xs s)"
  by (simp add: run_def)

text \<open>
  Claim C5. When the existence probe throws in a save request that has passed the gates,
  the request logs the error with \<^verbatim>\<open>console.error\<close> and goes on to
  \<^verbatim>\<open>performSave\<close>: its run is the run for a probe that reports no worker at all, with
  the one log entry added after the probe. The commit is called, the overwrite dialog is
  not opened and no callback is stored, and the messages shown are those of the commit
  alone.
\<close>

theorem handleSave_probe_failure_fails_open:
  "\<not> confirmation_gate_blocks d \<Longrightarrow> \<not> hasDuplicates (checkForDuplicates d) \<Longrightarrow>
   checkExistingData e d = Inl error \<Longrightarrow>
     handleSave e (Some d) =
       [SetIsSaving True, CallCheckExistingData d,
        ConsoleError (ExistingDataCheckErrorLog error)] @ performSave e d
     \<and> handleSave (e\<lparr>checkExistingData := (\<lambda>report. Inr [])\<rparr>) (Some d) =
       [SetIsSaving True, CallCheckExistingData d] @ performSave e d
     \<and> CallSaveToPersonalSheets d \<in> set (handleSave e (Some d))
     \<and> SetConfirmDialogOpen True \<notin> set (handleSave e (Some d))
     \<and> SetOverwriteCallback (Some d) \<notin> set (handleSave e (Some d))
     \<and> confirmDialogOpen (run (handleSave e (Some d)) s) = confirmDialogOpen s
     \<and> filter is_message (handleSave e (Some d)) = filter is_message (performSave e d)"
proof -
  assume g: "\<not> confirmation_gate_blocks d" and nd: "\<not> hasDuplicates (checkForDuplicates d)"
    and t: "checkExistingData e d = Inl error"
  have h: "handleSave e (Some d) =
       [SetIsSaving True, CallCheckExistingData d,
        ConsoleError (ExistingDataCheckErrorLog error)] @ performSave e d"
    by (simp add: handleSave_probe [OF g nd] t)
  have h0: "handleSave (e\<lparr>checkExistingData := (\<lambda>report. Inr [])\<rparr>) (Some d) =
       [SetIsSaving True, CallCheckExistingData d] @ performSave e d"
    by (simp add: handleSave_probe [OF g nd] hasAnyExistingData_def performSave_env)
  have c: "CallSaveToPersonalSheets d \<in> set (handleSave e (Some d))"
    unfolding h using performSave_has_commit [of d e] by simp
  have n1: "SetConfirmDialogOpen True \<notin> set (handleSave e (Some d))"
    unfolding h using performSave_no_dialog_change(1) [of True e d] by simp
  have n2: "SetOverwriteCallback (Some d) \<notin> set (handleSave e (Some d))"
    unfolding h using performSave_no_dialog_change(2) [of "Some d" e d] by simp
  have cd: "confirmDialogOpen (run (handleSave e (Some d)) s) = confirmDialogOpen s"
    unfolding h run_append performSave_confirmDialogOpen by (simp add: run_def)
  have m: "filter is_message (handleSave e (Some d)) = filter is_message (performSave e d)"
    unfolding h by simp
  from h h0 c n1 n2 cd m show ?thesis by blast
qed

text \<open>
  A probe that throws a timeout error on the example report: the error is logged, the
  commit runs and succeeds, and the page goes to the success route with the dialog shut.
\<close>

theorem handleSave_probe_failure_fails_open_witness:
  "\<not> confirmation_gate_blocks example_report
   \<and> \<not> hasDuplicates (checkForDuplicates example_report)
   \<and> checkExistingData example_env_probe_throws example_report = Inl (JsError (js ''timeout''))
   \<and> handleSave example_env_probe_throws (Some example_report) =
       [SetIsSaving True, CallCheckExistingData example_report,
        ConsoleError (ExistingDataCheckErrorLog (JsError (js ''timeout''))),
        SetIsSaving True, CallSaveToPersonalSheets example_report,
        SetSuccess DataSaved, SetCurrentStep 4, Navigate ''/success'', SetIsSaving False]
   \<and> confirmDialogOpen (run (handleSave example_env_probe_throws (Some example_report))
                            example_state) = False"
proof -
  have t: "checkExistingData example_env_probe_throws example_report
           = Inl (JsError (js ''timeout''))"
    by (simp add: example_env_probe_throws_def)
  have nd: "\<not> hasDuplicates (checkForDuplicates example_report)"
    by (simp add: example_report_check)
  have p: "performSave example_env_probe_throws example_report =
       [SetIsSaving True, CallSaveToPersonalSheets example_report,
        SetSuccess DataSaved, SetCurrentStep 4, Navigate ''/success'', SetIsSaving False]"
    by (rule performSave_saved [where result = "Some \<lparr> result_failedWorkers = None \<rparr>"])
       (simp_all add: example_env_probe_throws_def example_env_def reported_failures_def)
  have s: "confirmDialogOpen example_state = False"
    by (simp add: example_state_def)
  note th = handleSave_probe_failure_fails_open [OF example_gate(2) nd t, of example_state]
  from th have "handleSave example_env_probe_throws (Some example_report) =
       [SetIsSaving True, CallCheckExistingData example_report,
        ConsoleError (ExistingDataCheckErrorLog (JsError (js ''timeout'')))]
       @ performSave example_env_probe_throws example_report"
    by blast
  then have a: "handleSave example_env_probe_throws (Some example_report) =
       [SetIsSaving True, CallCheckExistingData example_report,
        ConsoleError (ExistingDataCheckErrorLog (JsError (js ''timeout''))),
        SetIsSaving True, CallSaveToPersonalSheets example_report,
        SetSuccess DataSaved, SetCurrentStep 4, Navigate ''/success'', SetIsSaving False]"
    by (simp add: p)
  from th have "confirmDialogOpen (run (handleSave example_env_probe_throws (Some example_report))
                            example_state) = confirmDialogOpen example_state"
    by blast
  then have b: "confirmDialogOpen (run (handleSave example_env_probe_throws (Some example_report))
                            example_state) = False"
    by (simp only: s)
  from example_gate(2) nd t a b show ?thesis by blast
qed

subsection \<open>The saving flag\<close>

lemma performSave_saving_throughout: "saving_throughout s (performSave e d)"
  by (cases e d rule: performSave_cases)
     (simp_all add: performSave_failed performSave_saved performSave_thrown)

lemma performSave_isSaving: "\<not> isSaving (run (performSave e d) s)"
  by (cases e d rule: performSave_cases)
     (simp_all add: performSave_failed performSave_saved performSave_thrown run_def)

lemma confirmOverwrite_saving_throughout: "saving_throughout s (confirmOverwrite e (Some d))"
  unfolding confirmOverwrite_eq
  by (cases e d rule: performSave_cases)
     (simp_all add: performSave_failed performSave_saved performSave_thrown)

lemma confirmOverwrite_isSaving: "\<not> isSaving (run (confirmOverwrite e (Some d)) s)"
  unfolding confirmOverwrite_eq
  by (cases e d rule: performSave_cases)
     (simp_all add: performSave_failed performSave_saved performSave_thrown run_def)

lemma confirmOverwrite_has_commit:
  "CallSaveToPersonalSheets d \<in> set (confirmOverwrite e (Some d))"
  by (simp add: confirmOverwrite_def performSave_begin_def)

text \<open>Prefixing actions that keep the flag set, to a run that sets it first.\<close>

lemma saving_throughout_after_probe:
  "saving_throughout s (SetIsSaving True # CallCheckExistingData d # performSave e d)"
  "saving_throughout s
     (SetIsSaving True # CallCheckExistingData d # ConsoleError l # performSave e d)"
  by (cases e d rule: performSave_cases;
      simp add: performSave_failed performSave_saved performSave_thrown)+

text \<open>
  Claim C9, as the page implements it. Once a save request passes the validation gates,
  \<^verbatim>\<open>isSaving\<close> is set before the existence probe and is set in every intermediate
  state of the request's run, and it is false when the run ends. When no worker has
  existing data or the probe throws, that run contains the commit. When some worker has
  existing data, the run ends without a commit: it stores the callback, opens the
  overwrite dialog and clears the flag, so the flag is false while the dialog waits.
  Confirming the dialog sets the flag again, keeps it set in every intermediate state
  through the commit, and leaves it false at the end; cancelling does not touch it.
\<close>

theorem isSaving_during_save:
  "\<not> confirmation_gate_blocks d \<Longrightarrow> \<not> hasDuplicates (checkForDuplicates d) \<Longrightarrow>
     hd (handleSave e (Some d)) = SetIsSaving True
     \<and> saving_throughout s (handleSave e (Some d))
     \<and> \<not> isSaving (run (handleSave e (Some d)) s)
     \<and> ((\<forall>existingDataMap. checkExistingData e d = Inr existingDataMap
            \<longrightarrow> \<not> hasAnyExistingData existingDataMap)
         \<longrightarrow> CallSaveToPersonalSheets d \<in> set (handleSave e (Some d)))
     \<and> (\<forall>existingDataMap. checkExistingData e d = Inr existingDataMap
            \<and> hasAnyExistingData existingDataMap
         \<longrightarrow> handleSave e (Some d) =
              [SetIsSaving True, CallCheckExistingData d, SetOverwriteCallback (Some d),
               SetConfirmDialogOpen True, SetIsSaving False]
             \<and> confirmDialogOpen (run (handleSave e (Some d)) s)
             \<and> overwriteCallback (run (handleSave e (Some d)) s) = Some d
             \<and> hd (confirmOverwrite e (Some d)) = SetIsSaving True
             \<and> CallSaveToPersonalSheets d \<in> set (confirmOverwrite e (Some d))
             \<and> saving_throughout (run (handleSave e (Some d)) s) (confirmOverwrite e (Some d))
             \<and> \<not> isSaving (run (confirmOverwrite e (Some d)) (run (handleSave e (Some d)) s))
             \<and> isSaving (run handleCancelOverwrite (run (handleSave e (Some d)) s)) = False)"
proof -
  assume g: "\<not> confirmation_gate_blocks d" and nd: "\<not> hasDuplicates (checkForDuplicates d)"
  note h = handleSave_probe [OF g nd, of e]
  have c1: "hd (handleSave e (Some d)) = SetIsSaving True"
    by (simp add: h)
  have c2: "saving_throughout s (handleSave e (Some d))"
  proof (cases "checkExistingData e d")
    case (Inl error)
    then have "handleSave e (Some d) =
        SetIsSaving True # CallCheckExistingData d
        # ConsoleError (ExistingDataCheckErrorLog error) # performSave e d"
      by (simp add: h)
    then show ?thesis
      by (simp only: saving_throughout_after_probe)
  next
    case (Inr existingDataMap)
    show ?thesis
    proof (cases "hasAnyExistingData existingDataMap")
      case True
      with Inr show ?thesis by (simp add: h)
    next
      case False
      with Inr have "handleSave e (Some d) =
          SetIsSaving True # CallCheckExistingData d # performSave e d"
        by (simp add: h)
      then show ?thesis
        by (simp only: saving_throughout_after_probe)
    qed
  qed
  have c3: "\<not> isSaving (run (handleSave e (Some d)) s)"
  proof (cases "checkExistingData e d")
    case (Inl error)
    then have "handleSave e (Some d) =
        [SetIsSaving True, CallCheckExistingData d,
         ConsoleError (ExistingDataCheckErrorLog error)] @ performSave e d"
      by (simp add: h)
    then show ?thesis
      by (simp only: run_append performSave_isSaving not_False_eq_True)
  next
    case (Inr existingDataMap)
    show ?thesis
    proof (cases "hasAnyExistingData existingDataMap")
      case True
      with Inr show ?thesis by (simp add: h run_def)
    next
      case False
      with Inr have "handleSave e (Some d) =
          [SetIsSaving True, CallCheckExistingData d] @ performSave e d"
        by (simp add: h)
      then show ?thesis
        by (simp only: run_append performSave_isSaving not_False_eq_True)
    qed
  qed
  have c4: "(\<forall>existingDataMap. checkExistingData e d = Inr existingDataMap
            \<longrightarrow> \<not> hasAnyExistingData existingDataMap)
         \<longrightarrow> CallSaveToPersonalSheets d \<in> set (handleSave e (Some d))"
    unfolding h using performSave_has_commit [of d e]
    by (simp split: sum.splits)
  have c5: "\<forall>existingDataMap. checkExistingData e d = Inr existingDataMap
            \<and> hasAnyExistingData existingDataMap
         \<longrightarrow> handleSave e (Some d) =
              [SetIsSaving True, CallCheckExistingData d, SetOverwriteCallback (Some d),
               SetConfirmDialogOpen True, SetIsSaving False]
             \<and> confirmDialogOpen (run (handleSave e (Some d)) s)
             \<and> overwriteCallback (run (handleSave e (Some d)) s) = Some d
             \<and> hd (confirmOverwrite e (Some d)) = SetIsSaving True
             \<and> CallSaveToPersonalSheets d \<in> set (confirmOverwrite e (Some d))
             \<and> saving_throughout (run (handleSave e (Some d)) s) (confirmOverwrite e (Some d))
             \<and> \<not> isSaving (run (confirmOverwrite e (Some d)) (run (handleSave e (Some d)) s))
             \<and> isSaving (run handleCancelOverwrite (run (handleSave e (Some d)) s)) = False"
  proof (intro allI impI)
    fix existingDataMap
    assume "checkExistingData e d = Inr existingDataMap \<and> hasAnyExistingData existingDataMap"
    then have hh: "handleSave e (Some d) =
              [SetIsSaving True, CallCheckExistingData d, SetOverwriteCallback (Some d),
               SetConfirmDialogOpen True, SetIsSaving False]"
      by (simp add: h)
    have k: "hd (confirmOverwrite e (Some d)) = SetIsSaving True"
      by (simp add: confirmOverwrite_def performSave_begin_def)
    have cancel: "isSaving (run handleCancelOverwrite (run (handleSave e (Some d)) s)) = False"
      by (simp add: hh handleCancelOverwrite_def run_def)
    have open_dialog: "confirmDialogOpen (run (handleSave e (Some d)) s)"
      "overwriteCallback (run (handleSave e (Some d)) s) = Some d"
      by (simp_all add: hh run_def)
    from hh open_dialog k cancel confirmOverwrite_has_commit [of d e]
      confirmOverwrite_saving_throughout [of "run (handleSave e (Some d)) s" e d]
      confirmOverwrite_isSaving [of e d "run (handleSave e (Some d)) s"]
    show "handleSave e (Some d) =
              [SetIsSaving True, CallCheckExistingData d, SetOverwriteCallback (Some d),
               SetConfirmDialogOpen True, SetIsSaving False]
             \<and> confirmDialogOpen (run (handleSave e (Some d)) s)
             \<and> overwriteCallback (run (handleSave e (Some d)) s) = Some d
             \<and> hd (confirmOverwrite e (Some d)) = SetIsSaving True
             \<and> CallSaveToPersonalSheets d \<in> set (confirmOverwrite e (Some d))
             \<and> saving_throughout (run (handleSave e (Some d)) s) (confirmOverwrite e (Some d))
             \<and> \<not> isSaving (run (confirmOverwrite e (Some d)) (run (handleSave e (Some d)) s))
             \<and> isSaving (run handleCancelOverwrite (run (handleSave e (Some d)) s)) = False"
      by blast
  qed
  from c1 c2 c3 c4 c5 show ?thesis by blast
qed

lemma example_existing_probe:
  "checkExistingData example_env_existing example_report =
     Inr [(js ''Sato'', True), (js ''Tanaka'', False)]"
  "hasAnyExistingData [(js ''Sato'', True), (js ''Tanaka'', False)]"
  by (simp_all add: example_env_existing_def hasAnyExistingData_def)

lemma example_existing_handleSave:
  "handleSave example_env_existing (Some example_report) =
     [SetIsSaving True, CallCheckExistingData example_report,
      SetOverwriteCallback (Some example_report), SetConfirmDialogOpen True,
      SetIsSaving False]"
  using example_gate(2)
  by (simp add: handleSave_probe example_report_check example_existing_probe)

lemma example_existing_confirmOverwrite:
  "confirmOverwrite example_env_existing (Some example_report) =
     [SetIsSaving True, CallSaveToPersonalSheets example_report, SetConfirmDialogOpen False,
      SetSuccess DataSaved, SetCurrentStep 4, Navigate ''/success'', SetIsSaving False]"
  by (simp add: confirmOverwrite_def performSave_begin_def performSave_settle_def
      example_env_existing_def example_env_def reported_failures_def)

text \<open>
  Sato already has data for the date: the request ends with the dialog open, the callback
  stored and the flag false; confirming then commits with the flag set until the end.
\<close>

theorem isSaving_during_save_witness:
  "\<not> confirmation_gate_blocks example_report
   \<and> \<not> hasDuplicates (checkForDuplicates example_report)
   \<and> checkExistingData example_env_existing example_report =
       Inr [(js ''Sato'', True), (js ''Tanaka'', False)]
   \<and> hasAnyExistingData [(js ''Sato'', True), (js ''Tanaka'', False)]
   \<and> saving_throughout example_state (handleSave example_env_existing (Some example_report))
   \<and> \<not> isSaving (run (handleSave example_env_existing (Some example_report)) example_state)
   \<and> confirmDialogOpen (run (handleSave example_env_existing (Some example_report))
                            example_state)
   \<and> saving_throughout
         (run (handleSave example_env_existing (Some example_report)) example_state)
         (confirmOverwrite example_env_existing (Some example_report))
   \<and> \<not> isSaving
         (run (confirmOverwrite example_env_existing (Some example_report))
            (run (handleSave example_env_existing (Some example_report)) example_state))
   \<and> checkExistingData example_env example_report = Inr []
   \<and> \<not> hasAnyExistingData []
   \<and> CallSaveToPersonalSheets example_report
       \<in> set (handleSave example_env (Some example_report))
   \<and> saving_throughout example_state (handleSave example_env (Some example_report))
   \<and> \<not> isSaving (run (handleSave example_env (Some example_report)) example_state)"
proof -
  have nd: "\<not> hasDuplicates (checkForDuplicates example_report)"
    by (simp add: example_report_check)
  note th = isSaving_during_save [OF example_gate(2) nd, of example_env_existing example_state]
  have none: "checkExistingData example_env example_report = Inr []"
    "\<not> hasAnyExistingData []"
    by (simp_all add: example_env_def hasAnyExistingData_def)
  then have "\<forall>existingDataMap. checkExistingData example_env example_report = Inr existingDataMap
      \<longrightarrow> \<not> hasAnyExistingData existingDataMap"
    by simp
  with isSaving_during_save [OF example_gate(2) nd, of example_env example_state]
  have th0: "CallSaveToPersonalSheets example_report
       \<in> set (handleSave example_env (Some example_report))"
    "saving_throughout example_state (handleSave example_env (Some example_report))"
    "\<not> isSaving (run (handleSave example_env (Some example_report)) example_state)"
    by blast+
  from th th0 none example_existing_probe example_gate(2) nd show ?thesis
    by blast
qed

text \<open>
  Claim C9, as stated, fails on the page: with existing data for Sato the request passes
  the gates and probes, and then, with the overwrite confirmation still to come and no
  commit made, the flag is false. Over the whole span of probe, confirmation and commit
  the flag is therefore not set throughout.
\<close>

theorem isSaving_continuous_counterexample:
  "\<not> confirmation_gate_blocks example_report
   \<and> \<not> hasDuplicates (checkForDuplicates example_report)
   \<and> handleSave example_env_existing (Some example_report) =
       [SetIsSaving True, CallCheckExistingData example_report,
        SetOverwriteCallback (Some example_report), SetConfirmDialogOpen True,
        SetIsSaving False]
   \<and> run (handleSave example_env_existing (Some example_report)) example_state =
       example_state\<lparr>confirmDialogOpen := True, overwriteCallback := Some example_report\<rparr>
   \<and> isSaving (run (handleSave example_env_existing (Some example_report)) example_state)
       = False
   \<and> \<not> saving_throughout example_state
         (handleSave example_env_existing (Some example_report)
          @ confirmOverwrite example_env_existing (Some example_report))"
proof -
  have nd: "\<not> hasDuplicates (checkForDuplicates example_report)"
    by (simp add: example_report_check)
  have r: "run (handleSave example_env_existing (Some example_report)) example_state =
       example_state\<lparr>confirmDialogOpen := True, overwriteCallback := Some example_report\<rparr>"
    by (simp add: example_existing_handleSave run_def example_state_def)
  have f: "isSaving (run (handleSave example_env_existing (Some example_report)) example_state)
       = False"
    by (simp add: example_existing_handleSave run_def example_state_def)
  have n: "\<not> saving_throughout example_state
         (handleSave example_env_existing (Some example_report)
          @ confirmOverwrite example_env_existing (Some example_report))"
    by (simp add: example_existing_handleSave example_existing_confirmOverwrite)
  from example_gate(2) nd example_existing_handleSave r f n show ?thesis by blast
qed

subsection \<open>Master-data reconciliation\<close>

lemma map_clearNameError_unchanged:
  "\<not> list_ex (nameErrorCleared m) rs \<Longrightarrow> map (clearNameError m) rs = rs"
  by (induction rs) (simp_all add: clearNameError_def)

text \<open>
  The report after the effect, whether or not the effect stored one: when nothing was
  cleared the computed report is the old one.
\<close>

lemma reconcileMasterData_run:
  "editedData s = Some d \<Longrightarrow>
     run (reconcileMasterData (editedData s) (Some m) False) s =
       s\<lparr>editedData := Some \<lparr> header = clearProductError m (header d),
                                housou_sagyou_kiroku =
                                  map (clearNameError m) (housou_sagyou_kiroku d),
                                kikai_sousa_kiroku =
                                  map (clearNameError m) (kikai_sousa_kiroku d) \<rparr>\<rparr>"
proof -
  assume a: "editedData s = Some d"
  show ?thesis
  proof (cases "productErrorCleared m (header d)
                \<or> list_ex (nameErrorCleared m) (housou_sagyou_kiroku d)
                \<or> list_ex (nameErrorCleared m) (kikai_sousa_kiroku d)")
    case True
    then show ?thesis
      by (simp add: a reconcileMasterData_def run_def Let_def)
  next
    case False
    then have u: "\<lparr> header = clearProductError m (header d),
                    housou_sagyou_kiroku = map (clearNameError m) (housou_sagyou_kiroku d),
                    kikai_sousa_kiroku = map (clearNameError m) (kikai_sousa_kiroku d) \<rparr> = d"
      by (simp add: map_clearNameError_unchanged clearProductError_def)
    from False have "run (reconcileMasterData (editedData s) (Some m) False) s = s"
      by (simp add: a reconcileMasterData_def run_def Let_def)
    also have "s = s\<lparr>editedData := Some d\<rparr>"
      using a by simp
    finally show ?thesis
      by (simp only: u)
  qed
qed

lemma clearNameError_status:
  "nameConfirmationStatus (clearNameError m r) = Some Pending \<Longrightarrow>
     nameConfirmationStatus r = Some Pending"
  by (simp add: clearNameError_def split: if_splits)

lemma clearProductError_status:
  "productConfirmationStatus (clearProductError m h) = Some Pending \<Longrightarrow>
     productConfirmationStatus h = Some Pending"
  by (simp add: clearProductError_def split: if_splits)

text \<open>
  Claim C2. When the master data is loaded (the effect runs with a report, with master
  data and with the loading flag off), the page state changes in the report only, and in
  the report field by field. A field carries an error flag when the flag is truthy. The
  product field, when its value is non-empty, is among the master products and it
  carries an error flag, loses the flag and becomes approved; otherwise the header is
  unchanged. Every worker of the packaging and of the machine list, when the name is
  non-empty, is among the master employees and the record carries an error flag, loses
  the flag and becomes approved, nothing else in the record changing; every other
  record is unchanged, and the lists keep their length and order. No field becomes
  pending: an approved field stays approved and an editing field stays editing or
  becomes approved.
\<close>

theorem reconcileMasterData_clears_matched_errors:
  "editedData s = Some d \<Longrightarrow>
     (\<exists>d'. run (reconcileMasterData (editedData s) (Some m) False) s
            = s\<lparr>editedData := Some d'\<rparr>
        \<and> header d' =
            (if js_truthy (shouhinmei (header d))
                \<and> shouhinmei (header d) \<in> set (products m)
                \<and> js_truthy_opt (productError (header d))
             then (header d)\<lparr>productError := None, productConfirmationStatus := Some Approved\<rparr>
             else header d)
        \<and> housou_sagyou_kiroku d' =
            map (\<lambda>r. if js_truthy (shimei r) \<and> shimei r \<in> set (employees m)
                         \<and> js_truthy_opt (nameError r)
                      then r\<lparr>nameError := None, nameConfirmationStatus := Some Approved\<rparr>
                      else r)
              (housou_sagyou_kiroku d)
        \<and> kikai_sousa_kiroku d' =
            map (\<lambda>r. if js_truthy (shimei r) \<and> shimei r \<in> set (employees m)
                         \<and> js_truthy_opt (nameError r)
                      then r\<lparr>nameError := None, nameConfirmationStatus := Some Approved\<rparr>
                      else r)
              (kikai_sousa_kiroku d)
        \<and> (productConfirmationStatus (header d) \<in> {Some Approved, Some Editing}
             \<longrightarrow> productConfirmationStatus (header d')
                   \<in> {productConfirmationStatus (header d), Some Approved})
        \<and> (\<forall>i < length (housou_sagyou_kiroku d).
              nameConfirmationStatus (housou_sagyou_kiroku d ! i) \<in> {Some Approved, Some Editing}
              \<longrightarrow> nameConfirmationStatus (housou_sagyou_kiroku d' ! i)
                    \<in> {nameConfirmationStatus (housou_sagyou_kiroku d ! i), Some Approved})
        \<and> (\<forall>i < length (kikai_sousa_kiroku d).
              nameConfirmationStatus (kikai_sousa_kiroku d ! i) \<in> {Some Approved, Some Editing}
              \<longrightarrow> nameConfirmationStatus (kikai_sousa_kiroku d' ! i)
                    \<in> {nameConfirmationStatus (kikai_sousa_kiroku d ! i), Some Approved}))"
proof -
  assume a: "editedData s = Some d"
  let ?d' = "\<lparr> header = clearProductError m (header d),
               housou_sagyou_kiroku = map (clearNameError m) (housou_sagyou_kiroku d),
               kikai_sousa_kiroku = map (clearNameError m) (kikai_sousa_kiroku d) \<rparr>"
  have c: "clearNameError m =
      (\<lambda>r. if js_truthy (shimei r) \<and> shimei r \<in> set (employees m)
               \<and> js_truthy_opt (nameError r)
            then r\<lparr>nameError := None, nameConfirmationStatus := Some Approved\<rparr>
            else r)"
    by (rule ext) (simp add: clearNameError_def nameErrorCleared_def)
  have r1: "run (reconcileMasterData (editedData s) (Some m) False) s
            = s\<lparr>editedData := Some ?d'\<rparr>"
    using a by (rule reconcileMasterData_run)
  have r2: "header ?d' =
            (if js_truthy (shouhinmei (header d))
                \<and> shouhinmei (header d) \<in> set (products m)
                \<and> js_truthy_opt (productError (header d))
             then (header d)\<lparr>productError := None, productConfirmationStatus := Some Approved\<rparr>
             else header d)"
    by (simp add: clearProductError_def productErrorCleared_def)
  have r3: "housou_sagyou_kiroku ?d' =
            map (\<lambda>r. if js_truthy (shimei r) \<and> shimei r \<in> set (employees m)
                         \<and> js_truthy_opt (nameError r)
                      then r\<lparr>nameError := None, nameConfirmationStatus := Some Approved\<rparr>
                      else r)
              (housou_sagyou_kiroku d)"
    by (simp add: c [symmetric])
  have r4: "kikai_sousa_kiroku ?d' =
            map (\<lambda>r. if js_truthy (shimei r) \<and> shimei r \<in> set (employees m)
                         \<and> js_truthy_opt (nameError r)
                      then r\<lparr>nameError := None, nameConfirmationStatus := Some Approved\<rparr>
                      else r)
              (kikai_sousa_kiroku d)"
    by (simp add: c [symmetric])
  have st: "nameConfirmationStatus (clearNameError m r)
            \<in> {nameConfirmationStatus r, Some Approved}" for r
    by (simp add: clearNameError_def)
  have r5: "productConfirmationStatus (header d) \<in> {Some Approved, Some Editing}
             \<longrightarrow> productConfirmationStatus (header ?d')
                   \<in> {productConfirmationStatus (header d), Some Approved}"
    by (simp add: clearProductError_def)
  have r6: "\<forall>i < length (housou_sagyou_kiroku d).
              nameConfirmationStatus (housou_sagyou_kiroku d ! i) \<in> {Some Approved, Some Editing}
              \<longrightarrow> nameConfirmationStatus (housou_sagyou_kiroku ?d' ! i)
                    \<in> {nameConfirmationStatus (housou_sagyou_kiroku d ! i), Some Approved}"
    using st by simp
  have r7: "\<forall>i < length (kikai_sousa_kiroku d).
              nameConfirmationStatus (kikai_sousa_kiroku d ! i) \<in> {Some Approved, Some Editing}
              \<longrightarrow> nameConfirmationStatus (kikai_sousa_kiroku ?d' ! i)
                    \<in> {nameConfirmationStatus (kikai_sousa_kiroku d ! i), Some Approved}"
    using st by simp
  from r1 r2 r3 r4 r5 r6 r7 show ?thesis
    by (intro exI [of _ ?d']) (intro conjI)
qed

text \<open>
  A report with a flagged product P in editing and five workers, against master data
  that knows P, Sato and Tanaka: the product and the flagged Sato become approved and
  lose the flag; the flagged Yamada and Ito, who are not in the master data, stay pending
  and approved with their flags; the unflagged Tanaka stays editing; the flagged Tanaka
  goes from editing to approved.
\<close>

theorem reconcileMasterData_clears_matched_errors_witness:
  "editedData (example_state\<lparr>editedData := Some example_flagged\<rparr>) = Some example_flagged
   \<and> run (reconcileMasterData (Some example_flagged) (Some example_master) False)
         (example_state\<lparr>editedData := Some example_flagged\<rparr>)
       = example_state\<lparr>editedData := Some
           \<lparr> header = example_header (Some Approved),
             housou_sagyou_kiroku =
               [example_worker (js ''Sato'') (Some Approved),
                (example_worker (js ''Yamada'') (Some Pending))
                  \<lparr>nameError := Some (js ''unknown'')\<rparr>,
                (example_worker (js ''Ito'') (Some Approved))
                  \<lparr>nameError := Some (js ''unknown'')\<rparr>],
             kikai_sousa_kiroku =
               [example_worker (js ''Tanaka'') (Some Editing),
                example_worker (js ''Tanaka'') (Some Approved)] \<rparr>\<rparr>"
proof -
  let ?s = "example_state\<lparr>editedData := Some example_flagged\<rparr>"
  have a: "editedData ?s = Some example_flagged"
    by simp
  from reconcileMasterData_clears_matched_errors [OF a, of example_master]
  obtain d' where
    r: "run (reconcileMasterData (editedData ?s) (Some example_master) False) ?s
        = ?s\<lparr>editedData := Some d'\<rparr>"
    and h: "header d' =
            (if js_truthy (shouhinmei (header example_flagged))
                \<and> shouhinmei (header example_flagged) \<in> set (products example_master)
                \<and> js_truthy_opt (productError (header example_flagged))
             then (header example_flagged)
                    \<lparr>productError := None, productConfirmationStatus := Some Approved\<rparr>
             else header example_flagged)"
    and p: "housou_sagyou_kiroku d' =
            map (\<lambda>r. if js_truthy (shimei r) \<and> shimei r \<in> set (employees example_master)
                         \<and> js_truthy_opt (nameError r)
                      then r\<lparr>nameError := None, nameConfirmationStatus := Some Approved\<rparr>
                      else r)
              (housou_sagyou_kiroku example_flagged)"
    and k: "kikai_sousa_kiroku d' =
            map (\<lambda>r. if js_truthy (shimei r) \<and> shimei r \<in> set (employees example_master)
                         \<and> js_truthy_opt (nameError r)
                      then r\<lparr>nameError := None, nameConfirmationStatus := Some Approved\<rparr>
                      else r)
              (kikai_sousa_kiroku example_flagged)"
    by (elim exE conjE)
  have "d' = \<lparr> header = example_header (Some Approved),
             housou_sagyou_kiroku =
               [example_worker (js ''Sato'') (Some Approved),
                (example_worker (js ''Yamada'') (Some Pending))
                  \<lparr>nameError := Some (js ''unknown'')\<rparr>,
                (example_worker (js ''Ito'') (Some Approved))
                  \<lparr>nameError := Some (js ''unknown'')\<rparr>],
             kikai_sousa_kiroku =
               [example_worker (js ''Tanaka'') (Some Editing),
                example_worker (js ''Tanaka'') (Some Approved)] \<rparr>"
    by (rule OcrResult.equality)
       (simp_all add: h p k example_flagged_def example_master_def example_header_def
          example_worker_def js_truthy_def js_truthy_opt_def js_def)
  with r a show ?thesis
    by simp
qed

subsection \<open>Added worker records\<close>

lemma set_js_splice_insert: "set (js_splice_insert position x xs) = insert x (set xs)"
proof -
  have "set (take n xs @ [x] @ drop n xs) = insert x (set xs)" for n
  proof -
    have "set (take n xs @ [x] @ drop n xs) = insert x (set (take n xs @ drop n xs))"
      by (simp only: set_append) auto
    then show ?thesis by simp
  qed
  then show ?thesis
    by (simp add: js_splice_insert_def Let_def)
qed

lemma js_splice_insert_at:
  "js_splice_insert position x xs =
     take (js_splice_start position xs) xs @ x # drop (js_splice_start position xs) xs"
  "js_splice_start position xs \<le> length xs"
  by (auto simp: js_splice_insert_def js_splice_start_def Let_def)

lemma insert_at_update:
  "i \<le> length xs \<Longrightarrow> (take i xs @ x # drop i xs)[i := y] = take i xs @ y # drop i xs"
  "i \<le> length xs \<Longrightarrow> (take i xs @ x # drop i xs) ! i = x"
  "i \<le> length xs \<Longrightarrow> i < length (take i xs @ x # drop i xs)"
  by (simp_all add: list_update_append nth_append min_def)

lemma set_insert_at: "set (take i xs @ x # drop i xs) = insert x (set xs)"
proof -
  have "set (take i xs @ x # drop i xs) = insert x (set (take i xs @ drop i xs))"
    by (simp only: set_append) auto
  then show ?thesis by simp
qed

text \<open>One of the two confirmation alerts is the whole run exactly when the gate blocks.\<close>

lemma handleSave_alert_iff:
  "handleSave e (Some d) = [Alert UnconfirmedItems] \<or> handleSave e (Some d) = [Alert EditingItems]
   \<longleftrightarrow> confirmation_gate_blocks d"
proof (cases "confirmation_gate_blocks d")
  case True
  then show ?thesis using handleSave_gate_alert [of d e] by simp
next
  case False
  note g = this
  show ?thesis
  proof (cases "hasDuplicates (checkForDuplicates d)")
    case True
    with g show ?thesis by (simp add: handleSave_duplicates)
  next
    case False
    with g show ?thesis by (simp add: handleSave_probe)
  qed
qed

lemma newPackagingRecord_fields:
  "shimei newPackagingRecord = []" "nameConfirmationStatus newPackagingRecord = None"
  by (simp_all add: newPackagingRecord_def)

lemma newMachineRecord_fields:
  "shimei (newMachineRecord d) = []"
  "nameConfirmationStatus (newMachineRecord d) = Some Pending"
  by (simp_all add: newMachineRecord_def split: list.splits)

text \<open>A record whose status is neither pending nor editing does not move the gate.\<close>

lemma gate_with_packaging_record:
  "set ws = insert r (set (housou_sagyou_kiroku d)) \<Longrightarrow>
   nameConfirmationStatus r \<notin> {Some Pending, Some Editing} \<Longrightarrow>
     confirmation_gate_blocks (d\<lparr>housou_sagyou_kiroku := ws\<rparr>) = confirmation_gate_blocks d"
  by (simp add: confirmation_gate_blocks_iff)

lemma gate_with_confirmed_machine_record:
  "set ws = insert r (set (kikai_sousa_kiroku d)) \<Longrightarrow>
   nameConfirmationStatus r \<notin> {Some Pending, Some Editing} \<Longrightarrow>
     confirmation_gate_blocks (d\<lparr>kikai_sousa_kiroku := ws\<rparr>) = confirmation_gate_blocks d"
  by (simp add: confirmation_gate_blocks_iff)

lemma pending_machine_record_alert:
  "r \<in> set (kikai_sousa_kiroku d) \<Longrightarrow> nameConfirmationStatus r = Some Pending \<Longrightarrow>
     handleSave e (Some d) = [Alert UnconfirmedItems]"
proof -
  assume "r \<in> set (kikai_sousa_kiroku d)" "nameConfirmationStatus r = Some Pending"
  then have "hasPendingNames d"
    unfolding hasPendingNames_iff by blast
  then show ?thesis
    by (simp add: handleSave_def)
qed

text \<open>A blank name anywhere in the list is skipped by the count.\<close>

lemma count_name_blank: "count_name [] nameCount = nameCount"
  by (simp add: count_name_def is_counted_def js_truthy_def)

lemma findDuplicates_blank:
  "findDuplicates (map f (take i xs) @ [] # map f (drop i xs)) = findDuplicates (map f xs)"
proof -
  have e1: "fold count_name (map f (take i xs) @ [] # map f (drop i xs)) []
        = fold count_name (map f (drop i xs)) (fold count_name (map f (take i xs)) [])"
    by (simp add: count_name_blank)
  have "fold count_name (map f xs) [] = fold count_name (map f (take i xs @ drop i xs)) []"
    by (simp only: append_take_drop_id)
  also have "\<dots> = fold count_name (map f (drop i xs)) (fold count_name (map f (take i xs)) [])"
    by (simp only: map_append fold_append o_apply)
  finally show ?thesis
    by (simp only: findDuplicates_def e1)
qed

lemma checkForDuplicates_blank:
  "shimei r = [] \<Longrightarrow>
     checkForDuplicates (d\<lparr>housou_sagyou_kiroku :=
         take i (housou_sagyou_kiroku d) @ r # drop i (housou_sagyou_kiroku d)\<rparr>)
       = checkForDuplicates d"
  "shimei r = [] \<Longrightarrow>
     checkForDuplicates (d\<lparr>kikai_sousa_kiroku :=
         take i (kikai_sousa_kiroku d) @ r # drop i (kikai_sousa_kiroku d)\<rparr>)
       = checkForDuplicates d"
  by (simp_all add: checkForDuplicates_def findDuplicates_blank)

text \<open>
  A report that differs from another by records that move neither the gate nor the
  duplicate check is blocked or let through with it.
\<close>

lemma handleSave_same_gates:
  "confirmation_gate_blocks d' = confirmation_gate_blocks d \<Longrightarrow>
   checkForDuplicates d' = checkForDuplicates d \<Longrightarrow>
     ((handleSave e (Some d') = [Alert UnconfirmedItems]
        \<or> handleSave e (Some d') = [Alert EditingItems]) = confirmation_gate_blocks d)
     \<and> (\<not> confirmation_gate_blocks d \<and> \<not> hasDuplicates (checkForDuplicates d) \<longrightarrow>
          \<not> blocked (handleSave e (Some d'))
          \<and> hd (handleSave e (Some d')) = SetIsSaving True
          \<and> CallCheckExistingData d' \<in> set (handleSave e (Some d')))"
proof -
  assume g: "confirmation_gate_blocks d' = confirmation_gate_blocks d"
    and c: "checkForDuplicates d' = checkForDuplicates d"
  have a: "(handleSave e (Some d') = [Alert UnconfirmedItems]
        \<or> handleSave e (Some d') = [Alert EditingItems]) = confirmation_gate_blocks d"
    unfolding handleSave_alert_iff g ..
  have b: "\<not> confirmation_gate_blocks d \<and> \<not> hasDuplicates (checkForDuplicates d) \<longrightarrow>
          \<not> blocked (handleSave e (Some d'))
          \<and> hd (handleSave e (Some d')) = SetIsSaving True
          \<and> CallCheckExistingData d' \<in> set (handleSave e (Some d'))"
  proof
    assume "\<not> confirmation_gate_blocks d \<and> \<not> hasDuplicates (checkForDuplicates d)"
    then have g': "\<not> confirmation_gate_blocks d'"
      and c': "\<not> hasDuplicates (checkForDuplicates d')"
      by (simp_all add: g c)
    have "\<not> blocked (handleSave e (Some d'))"
      unfolding handleSave_blocked using g' c' by simp
    moreover have "hd (handleSave e (Some d')) = SetIsSaving True"
      "CallCheckExistingData d' \<in> set (handleSave e (Some d'))"
      by (simp_all add: handleSave_probe [OF g' c'])
    ultimately show "\<not> blocked (handleSave e (Some d'))
          \<and> hd (handleSave e (Some d')) = SetIsSaving True
          \<and> CallCheckExistingData d' \<in> set (handleSave e (Some d'))"
      by blast
  qed
  from a b show ?thesis ..
qed

lemma packaging_record_same_gates:
  "confirmation_gate_blocks
     (d\<lparr>housou_sagyou_kiroku := newPackagingRecord # housou_sagyou_kiroku d\<rparr>)
   = confirmation_gate_blocks d"
  "checkForDuplicates
     (d\<lparr>housou_sagyou_kiroku := newPackagingRecord # housou_sagyou_kiroku d\<rparr>)
   = checkForDuplicates d"
  "confirmation_gate_blocks
     (d\<lparr>housou_sagyou_kiroku :=
          js_splice_insert position newPackagingRecord (housou_sagyou_kiroku d)\<rparr>)
   = confirmation_gate_blocks d"
  "checkForDuplicates
     (d\<lparr>housou_sagyou_kiroku :=
          js_splice_insert position newPackagingRecord (housou_sagyou_kiroku d)\<rparr>)
   = checkForDuplicates d"
proof -
  show "confirmation_gate_blocks
     (d\<lparr>housou_sagyou_kiroku := newPackagingRecord # housou_sagyou_kiroku d\<rparr>)
   = confirmation_gate_blocks d"
    by (rule gate_with_packaging_record [where r = newPackagingRecord])
       (simp_all add: newPackagingRecord_fields)
  show "checkForDuplicates
     (d\<lparr>housou_sagyou_kiroku := newPackagingRecord # housou_sagyou_kiroku d\<rparr>)
   = checkForDuplicates d"
    using checkForDuplicates_blank(1) [where r = newPackagingRecord and d = d and i = 0]
    by (simp add: newPackagingRecord_fields)
  show "confirmation_gate_blocks
     (d\<lparr>housou_sagyou_kiroku :=
          js_splice_insert position newPackagingRecord (housou_sagyou_kiroku d)\<rparr>)
   = confirmation_gate_blocks d"
    by (rule gate_with_packaging_record [where r = newPackagingRecord])
       (simp_all add: set_js_splice_insert newPackagingRecord_fields)
  show "checkForDuplicates
     (d\<lparr>housou_sagyou_kiroku :=
          js_splice_insert position newPackagingRecord (housou_sagyou_kiroku d)\<rparr>)
   = checkForDuplicates d"
    unfolding js_splice_insert_at
    by (rule checkForDuplicates_blank) (rule newPackagingRecord_fields)
qed

lemma confirmed_machine_record_same_gates:
  "confirmation_gate_blocks
     (d\<lparr>kikai_sousa_kiroku :=
          take i (kikai_sousa_kiroku d)
          @ (newMachineRecord d)\<lparr>nameConfirmationStatus := Some Approved\<rparr>
          # drop i (kikai_sousa_kiroku d)\<rparr>)
   = confirmation_gate_blocks d"
  "checkForDuplicates
     (d\<lparr>kikai_sousa_kiroku :=
          take i (kikai_sousa_kiroku d)
          @ (newMachineRecord d)\<lparr>nameConfirmationStatus := Some Approved\<rparr>
          # drop i (kikai_sousa_kiroku d)\<rparr>)
   = checkForDuplicates d"
proof -
  show "confirmation_gate_blocks
     (d\<lparr>kikai_sousa_kiroku :=
          take i (kikai_sousa_kiroku d)
          @ (newMachineRecord d)\<lparr>nameConfirmationStatus := Some Approved\<rparr>
          # drop i (kikai_sousa_kiroku d)\<rparr>)
   = confirmation_gate_blocks d"
    by (rule gate_with_confirmed_machine_record
          [where r = "(newMachineRecord d)\<lparr>nameConfirmationStatus := Some Approved\<rparr>"],
        simp only: set_insert_at, simp)
  show "checkForDuplicates
     (d\<lparr>kikai_sousa_kiroku :=
          take i (kikai_sousa_kiroku d)
          @ (newMachineRecord d)\<lparr>nameConfirmationStatus := Some Approved\<rparr>
          # drop i (kikai_sousa_kiroku d)\<rparr>)
   = checkForDuplicates d"
    by (rule checkForDuplicates_blank) (simp add: newMachineRecord_fields)
qed

lemma updateMachineNameConfirmationStatus_inserted:
  "i \<le> length (kikai_sousa_kiroku d) \<Longrightarrow>
     updateMachineNameConfirmationStatus
       (d\<lparr>kikai_sousa_kiroku :=
            take i (kikai_sousa_kiroku d) @ r # drop i (kikai_sousa_kiroku d)\<rparr>)
       i status
     = Some [SetEditedData
               (d\<lparr>kikai_sousa_kiroku :=
                    take i (kikai_sousa_kiroku d)
                    @ r\<lparr>nameConfirmationStatus := Some status\<rparr>
                    # drop i (kikai_sousa_kiroku d)\<rparr>),
             SetHasChanges True]"
  by (simp add: updateMachineNameConfirmationStatus_def insert_at_update Let_def
      del: list_update.simps)

text \<open>
  Claim C10. The record that \<^verbatim>\<open>addPackagingRecord\<close> and
  \<^verbatim>\<open>addPackagingRecordAtPosition\<close> put into the packaging list has an empty name and
  no name confirmation status at all. It counts neither as pending nor as editing: a
  save request on the report with it shows a confirmation alert exactly when the product
  or a worker of the report without it is pending or editing, its blank name adds no
  duplicate, and when the report without it has nothing pending, editing or duplicated
  the request is not blocked and goes on to the existence probe.

  The record that \<^verbatim>\<open>addMachineRecord\<close> and \<^verbatim>\<open>addMachineRecordAtPosition\<close> put
  into the machine list has an empty name and the status pending, whether copied from the
  first machine record or built from the defaults. A save request on the report with it
  shows the alert for unconfirmed items and does nothing else, and so does a request on
  any report whose machine list holds a pending record. Once the record is confirmed
  (\<^verbatim>\<open>updateMachineNameConfirmationStatus\<close> at its index with the status approved) it
  blocks no longer: the alert is shown exactly when the product or a worker of the
  report without it is pending or editing, and otherwise, without duplicates, the
  request goes on to the existence probe.
\<close>

theorem added_records_and_the_gate:
  "run (addPackagingRecord d) s =
     s\<lparr>editedData := Some (d\<lparr>housou_sagyou_kiroku :=
                               newPackagingRecord # housou_sagyou_kiroku d\<rparr>),
       hasChanges := True\<rparr>
   \<and> run (addPackagingRecordAtPosition d position) s =
     s\<lparr>editedData := Some (d\<lparr>housou_sagyou_kiroku :=
                               js_splice_insert position newPackagingRecord
                                 (housou_sagyou_kiroku d)\<rparr>),
       hasChanges := True\<rparr>
   \<and> shimei newPackagingRecord = []
   \<and> nameConfirmationStatus newPackagingRecord = None
   \<and> nameConfirmationStatus newPackagingRecord \<noteq> Some Pending
   \<and> nameConfirmationStatus newPackagingRecord \<noteq> Some Editing
   \<and> (confirmation_gate_blocks d \<longleftrightarrow>
        productConfirmationStatus (header d) \<in> {Some Pending, Some Editing}
        \<or> (\<exists>r \<in> set (housou_sagyou_kiroku d) \<union> set (kikai_sousa_kiroku d).
             nameConfirmationStatus r \<in> {Some Pending, Some Editing}))
   \<and> (\<forall>d' \<in> {d\<lparr>housou_sagyou_kiroku := newPackagingRecord # housou_sagyou_kiroku d\<rparr>,
               d\<lparr>housou_sagyou_kiroku :=
                    js_splice_insert position newPackagingRecord (housou_sagyou_kiroku d)\<rparr>}.
        ((handleSave e (Some d') = [Alert UnconfirmedItems]
           \<or> handleSave e (Some d') = [Alert EditingItems]) = confirmation_gate_blocks d)
        \<and> checkForDuplicates d' = checkForDuplicates d
        \<and> (\<not> confirmation_gate_blocks d \<and> \<not> hasDuplicates (checkForDuplicates d) \<longrightarrow>
             \<not> blocked (handleSave e (Some d'))
             \<and> hd (handleSave e (Some d')) = SetIsSaving True
             \<and> CallCheckExistingData d' \<in> set (handleSave e (Some d'))))
   \<and> run (addMachineRecord d) s =
     s\<lparr>editedData := Some (d\<lparr>kikai_sousa_kiroku :=
                               newMachineRecord d # kikai_sousa_kiroku d\<rparr>),
       hasChanges := True\<rparr>
   \<and> run (addMachineRecordAtPosition d position) s =
     s\<lparr>editedData := Some (d\<lparr>kikai_sousa_kiroku :=
                               js_splice_insert position (newMachineRecord d)
                                 (kikai_sousa_kiroku d)\<rparr>),
       hasChanges := True\<rparr>
   \<and> shimei (newMachineRecord d) = []
   \<and> nameConfirmationStatus (newMachineRecord d) = Some Pending
   \<and> handleSave e (Some (d\<lparr>kikai_sousa_kiroku := newMachineRecord d # kikai_sousa_kiroku d\<rparr>))
       = [Alert UnconfirmedItems]
   \<and> handleSave e (Some (d\<lparr>kikai_sousa_kiroku :=
                             js_splice_insert position (newMachineRecord d)
                               (kikai_sousa_kiroku d)\<rparr>))
       = [Alert UnconfirmedItems]
   \<and> (\<forall>r \<in> set (kikai_sousa_kiroku d2).
        nameConfirmationStatus r = Some Pending \<longrightarrow>
        handleSave e (Some d2) = [Alert UnconfirmedItems])
   \<and> js_splice_insert position (newMachineRecord d) (kikai_sousa_kiroku d) =
       take (js_splice_start position (kikai_sousa_kiroku d)) (kikai_sousa_kiroku d)
       @ newMachineRecord d
       # drop (js_splice_start position (kikai_sousa_kiroku d)) (kikai_sousa_kiroku d)
   \<and> updateMachineNameConfirmationStatus
         (d\<lparr>kikai_sousa_kiroku := newMachineRecord d # kikai_sousa_kiroku d\<rparr>) 0 Approved
       = Some [SetEditedData
                 (d\<lparr>kikai_sousa_kiroku :=
                      (newMachineRecord d)\<lparr>nameConfirmationStatus := Some Approved\<rparr>
                      # kikai_sousa_kiroku d\<rparr>),
               SetHasChanges True]
   \<and> updateMachineNameConfirmationStatus
         (d\<lparr>kikai_sousa_kiroku :=
              js_splice_insert position (newMachineRecord d) (kikai_sousa_kiroku d)\<rparr>)
         (js_splice_start position (kikai_sousa_kiroku d)) Approved
       = Some [SetEditedData
                 (d\<lparr>kikai_sousa_kiroku :=
                      take (js_splice_start position (kikai_sousa_kiroku d)) (kikai_sousa_kiroku d)
                      @ (newMachineRecord d)\<lparr>nameConfirmationStatus := Some Approved\<rparr>
                      # drop (js_splice_start position (kikai_sousa_kiroku d))
                          (kikai_sousa_kiroku d)\<rparr>),
               SetHasChanges True]
   \<and> (\<forall>d' \<in> {d\<lparr>kikai_sousa_kiroku :=
                    (newMachineRecord d)\<lparr>nameConfirmationStatus := Some Approved\<rparr>
                    # kikai_sousa_kiroku d\<rparr>,
               d\<lparr>kikai_sousa_kiroku :=
                    take (js_splice_start position (kikai_sousa_kiroku d)) (kikai_sousa_kiroku d)
                    @ (newMachineRecord d)\<lparr>nameConfirmationStatus := Some Approved\<rparr>
                    # drop (js_splice_start position (kikai_sousa_kiroku d))
                        (kikai_sousa_kiroku d)\<rparr>}.
        ((handleSave e (Some d') = [Alert UnconfirmedItems]
           \<or> handleSave e (Some d') = [Alert EditingItems]) = confirmation_gate_blocks d)
        \<and> checkForDuplicates d' = checkForDuplicates d
        \<and> (\<not> confirmation_gate_blocks d \<and> \<not> hasDuplicates (checkForDuplicates d) \<longrightarrow>
             \<not> blocked (handleSave e (Some d'))
             \<and> hd (handleSave e (Some d')) = SetIsSaving True
             \<and> CallCheckExistingData d' \<in> set (handleSave e (Some d'))))"
proof -
  have p1: "run (addPackagingRecord d) s =
     s\<lparr>editedData := Some (d\<lparr>housou_sagyou_kiroku :=
                               newPackagingRecord # housou_sagyou_kiroku d\<rparr>),
       hasChanges := True\<rparr>"
    by (simp add: addPackagingRecord_def run_def)
  have p2: "run (addPackagingRecordAtPosition d position) s =
     s\<lparr>editedData := Some (d\<lparr>housou_sagyou_kiroku :=
                               js_splice_insert position newPackagingRecord
                                 (housou_sagyou_kiroku d)\<rparr>),
       hasChanges := True\<rparr>"
    by (simp add: addPackagingRecordAtPosition_def run_def)
  have p3: "shimei newPackagingRecord = []"
    "nameConfirmationStatus newPackagingRecord = None"
    "nameConfirmationStatus newPackagingRecord \<noteq> Some Pending"
    "nameConfirmationStatus newPackagingRecord \<noteq> Some Editing"
    by (simp_all add: newPackagingRecord_fields)
  note g = confirmation_gate_blocks_iff [of d]
  have p4: "\<forall>d' \<in> {d\<lparr>housou_sagyou_kiroku := newPackagingRecord # housou_sagyou_kiroku d\<rparr>,
               d\<lparr>housou_sagyou_kiroku :=
                    js_splice_insert position newPackagingRecord (housou_sagyou_kiroku d)\<rparr>}.
        ((handleSave e (Some d') = [Alert UnconfirmedItems]
           \<or> handleSave e (Some d') = [Alert EditingItems]) = confirmation_gate_blocks d)
        \<and> checkForDuplicates d' = checkForDuplicates d
        \<and> (\<not> confirmation_gate_blocks d \<and> \<not> hasDuplicates (checkForDuplicates d) \<longrightarrow>
             \<not> blocked (handleSave e (Some d'))
             \<and> hd (handleSave e (Some d')) = SetIsSaving True
             \<and> CallCheckExistingData d' \<in> set (handleSave e (Some d')))"
    using handleSave_same_gates
        [OF packaging_record_same_gates(1) [where d = d]
            packaging_record_same_gates(2) [where d = d], where e = e]
      handleSave_same_gates
        [OF packaging_record_same_gates(3) [where d = d and position = position]
            packaging_record_same_gates(4) [where d = d and position = position], where e = e]
      packaging_record_same_gates(2) [where d = d]
      packaging_record_same_gates(4) [where d = d and position = position]
    by blast
  have m1: "run (addMachineRecord d) s =
     s\<lparr>editedData := Some (d\<lparr>kikai_sousa_kiroku :=
                               newMachineRecord d # kikai_sousa_kiroku d\<rparr>),
       hasChanges := True\<rparr>"
    by (simp add: addMachineRecord_def run_def)
  have m2: "run (addMachineRecordAtPosition d position) s =
     s\<lparr>editedData := Some (d\<lparr>kikai_sousa_kiroku :=
                               js_splice_insert position (newMachineRecord d)
                                 (kikai_sousa_kiroku d)\<rparr>),
       hasChanges := True\<rparr>"
    by (simp add: addMachineRecordAtPosition_def run_def)
  have m3: "shimei (newMachineRecord d) = []"
    "nameConfirmationStatus (newMachineRecord d) = Some Pending"
    by (rule newMachineRecord_fields)+
  have m4: "handleSave e (Some (d\<lparr>kikai_sousa_kiroku :=
                    newMachineRecord d # kikai_sousa_kiroku d\<rparr>)) = [Alert UnconfirmedItems]"
    by (rule pending_machine_record_alert [where r = "newMachineRecord d"])
       (simp_all add: newMachineRecord_fields)
  have m5: "handleSave e (Some (d\<lparr>kikai_sousa_kiroku :=
                             js_splice_insert position (newMachineRecord d)
                               (kikai_sousa_kiroku d)\<rparr>))
       = [Alert UnconfirmedItems]"
    by (rule pending_machine_record_alert [where r = "newMachineRecord d"])
       (simp_all add: newMachineRecord_fields set_js_splice_insert)
  have m6: "\<forall>r \<in> set (kikai_sousa_kiroku d2).
        nameConfirmationStatus r = Some Pending \<longrightarrow>
        handleSave e (Some d2) = [Alert UnconfirmedItems]"
    using pending_machine_record_alert [where d = d2 and e = e] by blast
  note m7 = js_splice_insert_at(1)
    [where position = position and x = "newMachineRecord d" and xs = "kikai_sousa_kiroku d"]
  have m8: "updateMachineNameConfirmationStatus
         (d\<lparr>kikai_sousa_kiroku := newMachineRecord d # kikai_sousa_kiroku d\<rparr>) 0 Approved
       = Some [SetEditedData
                 (d\<lparr>kikai_sousa_kiroku :=
                      (newMachineRecord d)\<lparr>nameConfirmationStatus := Some Approved\<rparr>
                      # kikai_sousa_kiroku d\<rparr>),
               SetHasChanges True]"
    by (simp add: updateMachineNameConfirmationStatus_def)
  have m9: "updateMachineNameConfirmationStatus
         (d\<lparr>kikai_sousa_kiroku :=
              js_splice_insert position (newMachineRecord d) (kikai_sousa_kiroku d)\<rparr>)
         (js_splice_start position (kikai_sousa_kiroku d)) Approved
       = Some [SetEditedData
                 (d\<lparr>kikai_sousa_kiroku :=
                      take (js_splice_start position (kikai_sousa_kiroku d)) (kikai_sousa_kiroku d)
                      @ (newMachineRecord d)\<lparr>nameConfirmationStatus := Some Approved\<rparr>
                      # drop (js_splice_start position (kikai_sousa_kiroku d))
                          (kikai_sousa_kiroku d)\<rparr>),
               SetHasChanges True]"
    unfolding m7
    by (rule updateMachineNameConfirmationStatus_inserted) (rule js_splice_insert_at(2))
  have z: "(newMachineRecord d)\<lparr>nameConfirmationStatus := Some Approved\<rparr> # kikai_sousa_kiroku d
           = take 0 (kikai_sousa_kiroku d)
             @ (newMachineRecord d)\<lparr>nameConfirmationStatus := Some Approved\<rparr>
             # drop 0 (kikai_sousa_kiroku d)"
    by simp
  have m10: "\<forall>d' \<in> {d\<lparr>kikai_sousa_kiroku :=
                    (newMachineRecord d)\<lparr>nameConfirmationStatus := Some Approved\<rparr>
                    # kikai_sousa_kiroku d\<rparr>,
               d\<lparr>kikai_sousa_kiroku :=
                    take (js_splice_start position (kikai_sousa_kiroku d)) (kikai_sousa_kiroku d)
                    @ (newMachineRecord d)\<lparr>nameConfirmationStatus := Some Approved\<rparr>
                    # drop (js_splice_start position (kikai_sousa_kiroku d))
                        (kikai_sousa_kiroku d)\<rparr>}.
        ((handleSave e (Some d') = [Alert UnconfirmedItems]
           \<or> handleSave e (Some d') = [Alert EditingItems]) = confirmation_gate_blocks d)
        \<and> checkForDuplicates d' = checkForDuplicates d
        \<and> (\<not> confirmation_gate_blocks d \<and> \<not> hasDuplicates (checkForDuplicates d) \<longrightarrow>
             \<not> blocked (handleSave e (Some d'))
             \<and> hd (handleSave e (Some d')) = SetIsSaving True
             \<and> CallCheckExistingData d' \<in> set (handleSave e (Some d')))"
    unfolding z
    using handleSave_same_gates
        [OF confirmed_machine_record_same_gates(1) [where d = d and i = 0]
            confirmed_machine_record_same_gates(2) [where d = d and i = 0], where e = e]
      handleSave_same_gates
        [OF confirmed_machine_record_same_gates(1)
              [where d = d and i = "js_splice_start position (kikai_sousa_kiroku d)"]
            confirmed_machine_record_same_gates(2)
              [where d = d and i = "js_splice_start position (kikai_sousa_kiroku d)"],
         where e = e]
      confirmed_machine_record_same_gates(2) [where d = d and i = 0]
      confirmed_machine_record_same_gates(2)
        [where d = d and i = "js_splice_start position (kikai_sousa_kiroku d)"]
    by blast
  from p1 p2 p3 g p4 m1 m2 m3 m4 m5 m6 m7 m8 m9 m10 show ?thesis
    by (intro conjI)
qed

text \<open>
  On the example report, where the product and every worker are approved and no name
  is repeated: with a fresh packaging record in front the save request runs the probe
  and the commit and ends on the success route, and with one inserted at position 1 it
  is not blocked either. With a fresh machine record in front the request stops at the
  alert for unconfirmed items; after that record is confirmed the request is no longer
  blocked and reaches the probe.
\<close>

theorem added_records_and_the_gate_witness:
  "\<not> confirmation_gate_blocks example_report
   \<and> \<not> hasDuplicates (checkForDuplicates example_report)
   \<and> handleSave example_env
         (Some (example_report\<lparr>housou_sagyou_kiroku :=
                  newPackagingRecord # housou_sagyou_kiroku example_report\<rparr>))
       = [SetIsSaving True,
          CallCheckExistingData
            (example_report\<lparr>housou_sagyou_kiroku :=
               newPackagingRecord # housou_sagyou_kiroku example_report\<rparr>),
          SetIsSaving True,
          CallSaveToPersonalSheets
            (example_report\<lparr>housou_sagyou_kiroku :=
               newPackagingRecord # housou_sagyou_kiroku example_report\<rparr>),
          SetSuccess DataSaved, SetCurrentStep 4, Navigate ''/success'', SetIsSaving False]
   \<and> \<not> blocked (handleSave example_env
         (Some (example_report\<lparr>housou_sagyou_kiroku :=
                  newPackagingRecord # housou_sagyou_kiroku example_report\<rparr>)))
   \<and> \<not> blocked (handleSave example_env
         (Some (example_report\<lparr>housou_sagyou_kiroku :=
                  js_splice_insert 1 newPackagingRecord
                    (housou_sagyou_kiroku example_report)\<rparr>)))
   \<and> newMachineRecord example_report
       \<in> set (kikai_sousa_kiroku
                (example_report\<lparr>kikai_sousa_kiroku :=
                   newMachineRecord example_report # kikai_sousa_kiroku example_report\<rparr>))
   \<and> nameConfirmationStatus (newMachineRecord example_report) = Some Pending
   \<and> handleSave example_env
         (Some (example_report\<lparr>kikai_sousa_kiroku :=
                  newMachineRecord example_report # kikai_sousa_kiroku example_report\<rparr>))
       = [Alert UnconfirmedItems]
   \<and> updateMachineNameConfirmationStatus
         (example_report\<lparr>kikai_sousa_kiroku :=
            newMachineRecord example_report # kikai_sousa_kiroku example_report\<rparr>) 0 Approved
       = Some [SetEditedData
                 (example_report\<lparr>kikai_sousa_kiroku :=
                    (newMachineRecord example_report)\<lparr>nameConfirmationStatus := Some Approved\<rparr>
                    # kikai_sousa_kiroku example_report\<rparr>),
               SetHasChanges True]
   \<and> \<not> blocked (handleSave example_env
         (Some (example_report\<lparr>kikai_sousa_kiroku :=
                  (newMachineRecord example_report)\<lparr>nameConfirmationStatus := Some Approved\<rparr>
                  # kikai_sousa_kiroku example_report\<rparr>)))
   \<and> CallCheckExistingData
         (example_report\<lparr>kikai_sousa_kiroku :=
            (newMachineRecord example_report)\<lparr>nameConfirmationStatus := Some Approved\<rparr>
            # kikai_sousa_kiroku example_report\<rparr>)
       \<in> set (handleSave example_env
                (Some (example_report\<lparr>kikai_sousa_kiroku :=
                         (newMachineRecord example_report)
                           \<lparr>nameConfirmationStatus := Some Approved\<rparr>
                         # kikai_sousa_kiroku example_report\<rparr>)))"
proof -
  let ?d1 = "example_report\<lparr>housou_sagyou_kiroku :=
               newPackagingRecord # housou_sagyou_kiroku example_report\<rparr>"
  let ?dm = "example_report\<lparr>kikai_sousa_kiroku :=
               newMachineRecord example_report # kikai_sousa_kiroku example_report\<rparr>"
  have g: "\<not> confirmation_gate_blocks example_report"
    by (rule example_gate(2))
  have c: "\<not> hasDuplicates (checkForDuplicates example_report)"
    by (simp add: example_report_check)
  have g1: "\<not> confirmation_gate_blocks ?d1"
    unfolding packaging_record_same_gates(1) by (rule g)
  have c1: "\<not> hasDuplicates (checkForDuplicates ?d1)"
    unfolding packaging_record_same_gates(2) by (rule c)
  have p: "performSave example_env ?d1 =
       [SetIsSaving True, CallSaveToPersonalSheets ?d1,
        SetSuccess DataSaved, SetCurrentStep 4, Navigate ''/success'', SetIsSaving False]"
    by (rule performSave_saved [where result = "Some \<lparr> result_failedWorkers = None \<rparr>"])
       (simp_all add: example_env_def reported_failures_def)
  have t: "handleSave example_env (Some ?d1)
       = [SetIsSaving True, CallCheckExistingData ?d1, SetIsSaving True,
          CallSaveToPersonalSheets ?d1,
          SetSuccess DataSaved, SetCurrentStep 4, Navigate ''/success'', SetIsSaving False]"
    unfolding handleSave_probe [OF g1 c1] p
    by (simp add: example_env_def hasAnyExistingData_def)
  have mem: "newMachineRecord example_report \<in> set (kikai_sousa_kiroku ?dm)"
    by simp
  note th = added_records_and_the_gate
    [where d = example_report and e = example_env and position = 1 and s = example_state
       and ?d2.0 = ?dm]
  from th have a: "\<forall>d' \<in> {?d1,
               example_report\<lparr>housou_sagyou_kiroku :=
                    js_splice_insert 1 newPackagingRecord
                      (housou_sagyou_kiroku example_report)\<rparr>}.
        (\<not> confirmation_gate_blocks example_report
           \<and> \<not> hasDuplicates (checkForDuplicates example_report) \<longrightarrow>
             \<not> blocked (handleSave example_env (Some d')))"
    by blast
  from th have b: "\<forall>r \<in> set (kikai_sousa_kiroku ?dm).
        nameConfirmationStatus r = Some Pending \<longrightarrow>
        handleSave example_env (Some ?dm) = [Alert UnconfirmedItems]"
    by blast
  from th have st: "nameConfirmationStatus (newMachineRecord example_report) = Some Pending"
    by blast
  from th have u: "updateMachineNameConfirmationStatus ?dm 0 Approved
       = Some [SetEditedData
                 (example_report\<lparr>kikai_sousa_kiroku :=
                    (newMachineRecord example_report)\<lparr>nameConfirmationStatus := Some Approved\<rparr>
                    # kikai_sousa_kiroku example_report\<rparr>),
               SetHasChanges True]"
    by blast
  from th have k: "\<not> confirmation_gate_blocks example_report
           \<and> \<not> hasDuplicates (checkForDuplicates example_report) \<longrightarrow>
        \<not> blocked (handleSave example_env
         (Some (example_report\<lparr>kikai_sousa_kiroku :=
                  (newMachineRecord example_report)\<lparr>nameConfirmationStatus := Some Approved\<rparr>
                  # kikai_sousa_kiroku example_report\<rparr>)))
        \<and> CallCheckExistingData
         (example_report\<lparr>kikai_sousa_kiroku :=
            (newMachineRecord example_report)\<lparr>nameConfirmationStatus := Some Approved\<rparr>
            # kikai_sousa_kiroku example_report\<rparr>)
          \<in> set (handleSave example_env
                (Some (example_report\<lparr>kikai_sousa_kiroku :=
                         (newMachineRecord example_report)
                           \<lparr>nameConfirmationStatus := Some Approved\<rparr>
                         # kikai_sousa_kiroku example_report\<rparr>)))"
    by blast
  from g c t a b mem st u k show ?thesis
    by blast
qed

end
